theory Spec2Isabelle
  imports Complex_Main
begin

section \<open>The axis controller of EXP\_CODE.ino\<close>

text \<open>
  The sketch drives one stepper axis from a serial command line. Its handlers are
  \<^verbatim>\<open>void\<close> functions over global variables, modelled here as functions from the
  state of the board to its next state.

  \<^item> \<^verbatim>\<open>double\<close> and \<^verbatim>\<open>float\<close> are modelled as exact real numbers: the rounding of
    the board's floating-point unit is not part of the model, so every statement
    about a position is a statement in exact arithmetic.
  \<^item> \<^verbatim>\<open>long\<close> and \<^verbatim>\<open>int\<close> are modelled as unbounded integers; the conversion
    of a quotient beyond the range of \<^verbatim>\<open>long\<close> is undefined in C++ and outside
    the model.
  \<^item> Busy-wait delays are not modelled.
  \<^item> The world outside the board is an \<open>env\<close>: the level of the contact line once
    \<open>k\<close> pulses have been issued since power-up (pulse boundary \<open>k\<close>), and whether
    the falling-edge interrupt fires during the pulse that follows boundary \<open>k\<close>.
    The line is taken to hold its level between two pulses.
  \<^item> What the board does to the world is recorded in the state: the characters
    written to the serial port, and for every step pulse the level of the direction
    line at that pulse.
\<close>

subsection \<open>Pins, constants and the state of the board\<close>

datatype level = LOW | HIGH

definition contactPin :: nat where "contactPin = 2"
definition contactLowPin :: nat where "contactLowPin = 3"
definition PUL_PIN :: nat where "PUL_PIN = 9"
definition DIR_PIN :: nat where "DIR_PIN = 10"
definition ENA_PIN :: nat where "ENA_PIN = 11"

definition stepDelay :: int where "stepDelay = 100"
definition MM_PER_PULSE :: real where "MM_PER_PULSE = 508 / 10000000"
definition STEPS_PER_COMMAND :: int where "STEPS_PER_COMMAND = 20"

record env =
  contactLine :: "nat \<Rightarrow> level"
  fallingEdge :: "nat \<Rightarrow> bool"

record axis =
  currentPosition :: real
  lastPositionUpdate :: nat
  contactDetected :: bool
  forceRest :: bool
  isCalibrated :: bool
  manualControlActive :: bool
  pins :: "nat \<Rightarrow> level"
  serial :: string
  pulses :: "level list"

text \<open>The global initialisers: the position starts at the sentinel \<open>-999\<close>.\<close>

definition globals :: axis where
  "globals = \<lparr> currentPosition = - 999, lastPositionUpdate = 0, contactDetected = False,
      forceRest = False, isCalibrated = False, manualControlActive = False,
      pins = (\<lambda>p. LOW), serial = [], pulses = [] \<rparr>"

subsection \<open>The serial port\<close>

definition print :: "string \<Rightarrow> axis \<Rightarrow> axis" where
  "print t s = s\<lparr>serial := serial s @ t\<rparr>"

definition println :: "string \<Rightarrow> axis \<Rightarrow> axis" where
  "println t s = print [CHR 0x0D, CHR 0x0A] (print t s)"

text \<open>
  The number formats are those of the Arduino core's \<^verbatim>\<open>Print\<close> class (a library,
  not part of the sketch): \<^verbatim>\<open>printNumber\<close> in base 10, and \<^verbatim>\<open>printFloat\<close>, which
  prints the sign, adds half a unit of the last digit, prints the integer part and
  then one digit at a time.
\<close>

definition digit_char :: "nat \<Rightarrow> char" where
  "digit_char d = ''0123456789'' ! d"

fun printNumber :: "nat \<Rightarrow> string" where
  "printNumber n = (if n < 10 then [digit_char n] else printNumber (n div 10) @ [digit_char (n mod 10)])"

declare printNumber.simps [simp del]

definition printLong :: "int \<Rightarrow> string" where
  "printLong n = (if n < 0 then CHR ''-'' # printNumber (nat (- n)) else printNumber (nat n))"

fun fracDigits :: "nat \<Rightarrow> real \<Rightarrow> string" where
  "fracDigits 0 remainder = []"
| "fracDigits (Suc digits) remainder =
     (let r = remainder * 10; toPrint = nat \<lfloor>r\<rfloor>
      in printNumber toPrint @ fracDigits digits (r - of_nat toPrint))"

definition printFloat :: "real \<Rightarrow> nat \<Rightarrow> string" where
  "printFloat number digits =
     (if number > 4294967040 then ''ovf''
      else if number < - 4294967040 then ''ovf''
      else
        let sign = (if number < 0 then ''-'' else []);
            n0 = (if number < 0 then - number else number);
            rounding = (1 / 2) / 10 ^ digits;
            n1 = n0 + rounding;
            int_part = nat \<lfloor>n1\<rfloor>;
            remainder = n1 - of_nat int_part
        in sign @ printNumber int_part
             @ (if digits > 0 then CHR ''.'' # fracDigits digits remainder else []))"

subsection \<open>Pins, the interrupt handlers and the step pulse\<close>

definition digitalWrite :: "nat \<Rightarrow> level \<Rightarrow> axis \<Rightarrow> axis" where
  "digitalWrite p v s = s\<lparr>pins := (pins s)(p := v)\<rparr>"

text \<open>
  Reading the contact pin samples the line at the current pulse boundary; reading an
  output pin gives the level last written to it.
\<close>

definition digitalRead :: "env \<Rightarrow> nat \<Rightarrow> axis \<Rightarrow> level" where
  "digitalRead e p s = (if p = contactPin then contactLine e (length (pulses s)) else pins s p)"

definition contactInterruptHandler :: "axis \<Rightarrow> axis" where
  "contactInterruptHandler s = s\<lparr>contactDetected := True\<rparr>"

definition forceRestInterruptHandler :: "axis \<Rightarrow> axis" where
  "forceRestInterruptHandler s = s\<lparr>forceRest := True\<rparr>"

text \<open>
  \<^verbatim>\<open>setup\<close> attaches \<open>contactInterruptHandler\<close> to the falling edge of the contact
  pin. The model lets it run during the dwell of a pulse, where the sequences spend
  their time.
\<close>

definition stepMotor :: "env \<Rightarrow> axis \<Rightarrow> axis" where
  "stepMotor e s =
     (let k = length (pulses s);
          s1 = digitalWrite PUL_PIN HIGH s;
          s2 = s1\<lparr>pulses := pulses s1 @ [pins s1 DIR_PIN]\<rparr>;
          s3 = digitalWrite PUL_PIN LOW s2
      in if fallingEdge e k then contactInterruptHandler s3 else s3)"

definition setup_sketch :: "axis \<Rightarrow> axis" where
  "setup_sketch s = println ''Arduino ready.'' s"

definition boot :: axis where
  "boot = setup_sketch globals"

subsection \<open>Calibration\<close>

partial_function (option) calibration_loop :: "env \<Rightarrow> axis \<Rightarrow> axis option" where
  "calibration_loop e s =
     (if \<not> contactDetected s then calibration_loop e (stepMotor e s) else Some s)"

declare calibration_loop.simps [code]

definition runCalibration :: "env \<Rightarrow> axis \<Rightarrow> axis option" where
  "runCalibration e s =
     (let s1 = println ''STATUS:CALIBRATION_START'' s;
          s2 = digitalWrite contactLowPin LOW s1;
          s3 = digitalWrite DIR_PIN LOW s2;
          s4 = digitalWrite ENA_PIN LOW s3;
          s5 = s4\<lparr>contactDetected := False\<rparr>;
          r = (if digitalRead e contactPin s5 = LOW
               then Some (println ''Contact already detected!'' (s5\<lparr>contactDetected := True\<rparr>))
               else calibration_loop e s5)
      in case r of
           None \<Rightarrow> None
         | Some s6 \<Rightarrow>
             let s7 = s6\<lparr>currentPosition := 0\<rparr>;
                 s8 = s7\<lparr>isCalibrated := True\<rparr>;
                 s9 = digitalWrite ENA_PIN HIGH s8;
                 s10 = println ''POSITION:0'' s9
             in Some (println ''STATUS:CALIBRATION_COMPLETE'' s10))"

subsection \<open>Moving to a target\<close>

text \<open>
  \<^verbatim>\<open>round\<close> and \<^verbatim>\<open>abs\<close> are the macros of \<^verbatim>\<open>Arduino.h\<close>:
  \<^verbatim>\<open>round(x) = ((x) >= 0 ? (long)((x) + 0.5) : (long)((x) - 0.5))\<close>, where the cast
  truncates toward zero.
\<close>

definition to_long :: "real \<Rightarrow> int" where
  "to_long x = (if x \<ge> 0 then \<lfloor>x\<rfloor> else \<lceil>x\<rceil>)"

definition round_long :: "real \<Rightarrow> int" where
  "round_long x = (if x \<ge> 0 then to_long (x + 1 / 2) else to_long (x - 1 / 2))"

definition abs_long :: "int \<Rightarrow> int" where
  "abs_long x = (if x > 0 then x else - x)"

definition targetSteps :: "real \<Rightarrow> int" where
  "targetSteps mm = round_long (mm / MM_PER_PULSE)"

definition snappedTarget :: "real \<Rightarrow> real" where
  "snappedTarget mm = of_int (targetSteps mm) * MM_PER_PULSE"

definition stepsToMove :: "real \<Rightarrow> real \<Rightarrow> int" where
  "stepsToMove position mm = round_long ((snappedTarget mm - position) / MM_PER_PULSE)"


function move_loop :: "env \<Rightarrow> int \<Rightarrow> int \<Rightarrow> real \<Rightarrow> int \<Rightarrow> axis \<Rightarrow> axis" where
  "move_loop e stm absStepsToMove startPosition i s =
     (if i < absStepsToMove then
        let s1 = stepMotor e s;
            s2 = (if stm > 0
                  then s1\<lparr>currentPosition := startPosition + of_int i * MM_PER_PULSE\<rparr>
                  else s1\<lparr>currentPosition := startPosition - of_int i * MM_PER_PULSE\<rparr>);
            s3 = (if i mod 100 = 0
                  then println (printFloat (currentPosition s2) 6) (print ''POSITION:'' s2)
                  else s2)
        in if digitalRead e contactPin s3 = LOW \<and> digitalRead e DIR_PIN s3 = LOW
           then println ''ERROR:Unexpected contact detected!''
                  (println (printFloat (currentPosition s3) 6) (print ''POSITION:'' s3))
           else move_loop e stm absStepsToMove startPosition (i + 1) s3
      else s)"
  by pat_completeness auto
termination
  by (relation "measure (\<lambda>(e, stm, a, sp, i, s). nat (a - i))") auto

declare move_loop.simps [simp del]

text \<open>
  The state of iteration \<open>i\<close> of the loop of \<open>moveToTarget\<close> after the pulse, the
  position update and the progress report, before the safety check: the lemmas about
  \<open>move_loop\<close> are stated with it.
\<close>

definition move_body :: "env \<Rightarrow> int \<Rightarrow> real \<Rightarrow> int \<Rightarrow> axis \<Rightarrow> axis" where
  "move_body e stm startPosition i s =
     (let s1 = stepMotor e s;
          s2 = (if stm > 0
                then s1\<lparr>currentPosition := startPosition + of_int i * MM_PER_PULSE\<rparr>
                else s1\<lparr>currentPosition := startPosition - of_int i * MM_PER_PULSE\<rparr>)
      in if i mod 100 = 0
         then println (printFloat (currentPosition s2) 6) (print ''POSITION:'' s2)
         else s2)"

definition moveToTarget :: "env \<Rightarrow> real \<Rightarrow> axis \<Rightarrow> axis" where
  "moveToTarget e mm s =
     (if \<not> isCalibrated s then println ''ERROR:NOT_CALIBRATED'' s
      else
        let s1 = print ''Moving to target distance: '' s;
            s2 = println (printFloat mm 6) s1;
            stm = stepsToMove (currentPosition s2) mm;
            s3 = print ''Steps to move: '' s2;
            s4 = println (printLong stm) s3;
            s5 = (if stm > 0 then digitalWrite DIR_PIN HIGH s4 else digitalWrite DIR_PIN LOW s4);
            s6 = digitalWrite ENA_PIN LOW s5;
            absStepsToMove = abs_long stm;
            startPosition = currentPosition s6;
            s7 = move_loop e stm absStepsToMove startPosition 0 s6;
            s8 = print ''POSITION:'' s7;
            s9 = println (printFloat (currentPosition s8) 6) s8
        in println ''STATUS:TARGET_COMPLETE'' s9)"

subsection \<open>Manual control and rest\<close>

function ccw_loop :: "env \<Rightarrow> int \<Rightarrow> axis \<Rightarrow> axis" where
  "ccw_loop e i s =
     (if i < STEPS_PER_COMMAND then
        if digitalRead e contactPin s = LOW
        then println ''WARNING: Contact detected during movement!'' (s\<lparr>contactDetected := True\<rparr>)
        else
          let s1 = stepMotor e s;
              s2 = s1\<lparr>currentPosition := currentPosition s1 - MM_PER_PULSE\<rparr>
          in ccw_loop e (i + 1) s2
      else s)"
  by pat_completeness auto
termination
  by (relation "measure (\<lambda>(e, i, s). nat (STEPS_PER_COMMAND - i))") auto

declare ccw_loop.simps [simp del]

definition manualStepCCW :: "env \<Rightarrow> axis \<Rightarrow> axis" where
  "manualStepCCW e s =
     (if \<not> isCalibrated s then println ''ERROR:NOT_CALIBRATED'' s
      else
        let s1 = digitalWrite DIR_PIN LOW s;
            s2 = digitalWrite ENA_PIN LOW s1;
            s3 = s2\<lparr>contactDetected := False\<rparr>
        in if digitalRead e contactPin s3 = LOW
           then println ''WARNING: Contact already detected!'' (s3\<lparr>contactDetected := True\<rparr>)
           else ccw_loop e 0 s3)"

function cw_loop :: "env \<Rightarrow> int \<Rightarrow> axis \<Rightarrow> axis" where
  "cw_loop e i s =
     (if i < STEPS_PER_COMMAND then
        let s1 = stepMotor e s;
            s2 = s1\<lparr>currentPosition := currentPosition s1 + MM_PER_PULSE\<rparr>
        in cw_loop e (i + 1) s2
      else s)"
  by pat_completeness auto
termination
  by (relation "measure (\<lambda>(e, i, s). nat (STEPS_PER_COMMAND - i))") auto

declare cw_loop.simps [simp del]

definition manualStepCW :: "env \<Rightarrow> axis \<Rightarrow> axis" where
  "manualStepCW e s =
     (if \<not> isCalibrated s then println ''ERROR:NOT_CALIBRATED'' s
      else
        let s1 = digitalWrite DIR_PIN HIGH s;
            s2 = digitalWrite ENA_PIN LOW s1
        in cw_loop e 0 s2)"

definition manualStopMotor :: "axis \<Rightarrow> axis" where
  "manualStopMotor s = println (printFloat (currentPosition s) 6) (print ''POSITION:'' s)"

definition stopMotor :: "axis \<Rightarrow> axis" where
  "stopMotor s =
     (let s1 = println ''Entering Rest State.'' s;
          s2 = digitalWrite ENA_PIN HIGH s1;
          s3 = print ''POSITION:'' s2
      in println (printFloat (currentPosition s3) 6) s3)"

subsection \<open>The command listener\<close>

text \<open>
  One pass of \<^verbatim>\<open>loop\<close> with a line available on the serial port. \<^verbatim>\<open>String::trim\<close>
  removes the leading and trailing characters that \<^verbatim>\<open>isspace\<close> accepts;
  \<^verbatim>\<open>String::toFloat\<close> belongs to the Arduino core and is a parameter here.
\<close>

definition isspace :: "char \<Rightarrow> bool" where
  "isspace c = (c \<in> set [CHR '' '', CHR 0x09, CHR 0x0A, CHR 0x0B, CHR 0x0C, CHR 0x0D])"

definition trim :: "string \<Rightarrow> string" where
  "trim t = rev (dropWhile isspace (rev (dropWhile isspace t)))"

definition loop_command :: "env \<Rightarrow> (string \<Rightarrow> real) \<Rightarrow> string \<Rightarrow> axis \<Rightarrow> axis option" where
  "loop_command e toFloat line s =
     (let command = trim line in
      if command = ''CALIBRATE'' then runCalibration e s
      else if take 7 command = ''TARGET:'' then
        (let targetDist = toFloat (drop 7 command) in Some (moveToTarget e targetDist s))
      else if command = ''MANUAL:READY'' then Some (s\<lparr>manualControlActive := True\<rparr>)
      else if command = ''MANUAL:COMPLETE'' then
        Some (println ''STATUS:MANUAL_COMPLETE'' (s\<lparr>manualControlActive := False\<rparr>))
      else if command = ''MANUAL:CW'' \<and> manualControlActive s then Some (manualStepCW e s)
      else if command = ''MANUAL:CCW'' \<and> manualControlActive s then Some (manualStepCCW e s)
      else if command = ''MANUAL:STOP'' then Some (manualStopMotor s)
      else if command = ''REST'' then Some (stopMotor s)
      else Some (println (''Unknown command: '' @ command) s))"

text \<open>The lines of a session, handled one after the other.\<close>

fun run_commands :: "env \<Rightarrow> (string \<Rightarrow> real) \<Rightarrow> string list \<Rightarrow> axis \<Rightarrow> axis option" where
  "run_commands e toFloat [] s = Some s"
| "run_commands e toFloat (line # rest) s =
     (case loop_command e toFloat line s of
        None \<Rightarrow> None
      | Some s' \<Rightarrow> run_commands e toFloat rest s')"

subsection \<open>The worlds and states used as concrete inputs\<close>

text \<open>A contact line that is never asserted, one that always is, and no interrupt.\<close>

definition line_clear :: env where
  "line_clear = \<lparr> contactLine = (\<lambda>k. HIGH), fallingEdge = (\<lambda>k. False) \<rparr>"

definition line_asserted :: env where
  "line_asserted = \<lparr> contactLine = (\<lambda>k. LOW), fallingEdge = (\<lambda>k. False) \<rparr>"

text \<open>The contact closes after \<open>n\<close> pulses, and the falling edge fires in the pulse that closes it.\<close>

definition contact_after :: "nat \<Rightarrow> env" where
  "contact_after n = \<lparr> contactLine = (\<lambda>k. if k < n then HIGH else LOW),
      fallingEdge = (\<lambda>k. Suc k = n) \<rparr>"

text \<open>The axis rests on the hard-stop at power-up and the contact opens with the first pulse.\<close>

definition leaving_stop :: env where
  "leaving_stop = \<lparr> contactLine = (\<lambda>k. if k = 0 then LOW else HIGH), fallingEdge = (\<lambda>k. False) \<rparr>"

text \<open>The state after \<open>CALIBRATE\<close> as the first command, with the axis on the hard-stop.\<close>

definition homed :: axis where
  "homed = boot\<lparr>currentPosition := 0, contactDetected := True, isCalibrated := True,
      pins := (\<lambda>p. if p = ENA_PIN then HIGH else LOW),
      serial := serial boot @ ''STATUS:CALIBRATION_START'' @ [CHR 0x0D, CHR 0x0A]
        @ ''Contact already detected!'' @ [CHR 0x0D, CHR 0x0A]
        @ ''POSITION:0'' @ [CHR 0x0D, CHR 0x0A]
        @ ''STATUS:CALIBRATION_COMPLETE'' @ [CHR 0x0D, CHR 0x0A]\<rparr>"

section \<open>Effects of the primitives\<close>

lemma print_fields [simp]:
  "currentPosition (print t s) = currentPosition s"
  "contactDetected (print t s) = contactDetected s"
  "isCalibrated (print t s) = isCalibrated s"
  "manualControlActive (print t s) = manualControlActive s"
  "forceRest (print t s) = forceRest s"
  "pins (print t s) = pins s"
  "pulses (print t s) = pulses s"
  "serial (print t s) = serial s @ t"
  by (simp_all add: print_def)

lemma println_fields [simp]:
  "currentPosition (println t s) = currentPosition s"
  "contactDetected (println t s) = contactDetected s"
  "isCalibrated (println t s) = isCalibrated s"
  "manualControlActive (println t s) = manualControlActive s"
  "forceRest (println t s) = forceRest s"
  "pins (println t s) = pins s"
  "pulses (println t s) = pulses s"
  "serial (println t s) = serial s @ t @ [CHR 0x0D, CHR 0x0A]"
  by (simp_all add: println_def)

lemma digitalWrite_fields [simp]:
  "currentPosition (digitalWrite p v s) = currentPosition s"
  "contactDetected (digitalWrite p v s) = contactDetected s"
  "isCalibrated (digitalWrite p v s) = isCalibrated s"
  "manualControlActive (digitalWrite p v s) = manualControlActive s"
  "forceRest (digitalWrite p v s) = forceRest s"
  "pins (digitalWrite p v s) = (pins s)(p := v)"
  "pulses (digitalWrite p v s) = pulses s"
  "serial (digitalWrite p v s) = serial s"
  by (simp_all add: digitalWrite_def)

lemma pin_numbers [simp]:
  "PUL_PIN \<noteq> DIR_PIN" "DIR_PIN \<noteq> PUL_PIN" "ENA_PIN \<noteq> DIR_PIN" "DIR_PIN \<noteq> ENA_PIN"
  "DIR_PIN \<noteq> contactPin" "contactLowPin \<noteq> DIR_PIN" "DIR_PIN \<noteq> contactLowPin"
  "ENA_PIN \<noteq> PUL_PIN" "PUL_PIN \<noteq> ENA_PIN" "ENA_PIN \<noteq> contactLowPin" "contactLowPin \<noteq> ENA_PIN"
  by (simp_all add: PUL_PIN_def DIR_PIN_def ENA_PIN_def contactPin_def contactLowPin_def)

lemma stepMotor_fields [simp]:
  "currentPosition (stepMotor e s) = currentPosition s"
  "contactDetected (stepMotor e s) = (contactDetected s \<or> fallingEdge e (length (pulses s)))"
  "isCalibrated (stepMotor e s) = isCalibrated s"
  "manualControlActive (stepMotor e s) = manualControlActive s"
  "forceRest (stepMotor e s) = forceRest s"
  "pins (stepMotor e s) = (pins s)(PUL_PIN := LOW)"
  "pulses (stepMotor e s) = pulses s @ [pins s DIR_PIN]"
  "serial (stepMotor e s) = serial s"
  by (simp_all add: stepMotor_def Let_def contactInterruptHandler_def digitalWrite_def)

lemma digitalRead_simps [simp]:
  "digitalRead e contactPin s = contactLine e (length (pulses s))"
  "digitalRead e DIR_PIN s = pins s DIR_PIN"
  by (simp_all add: digitalRead_def)

lemma boot_fields [simp]:
  "currentPosition boot = - 999" "\<not> isCalibrated boot" "pulses boot = []"
  "\<not> contactDetected boot" "pins boot = (\<lambda>p. LOW)"
  by (simp_all add: boot_def setup_sketch_def globals_def)

lemma homed_fields [simp]:
  "currentPosition homed = 0" "isCalibrated homed" "pulses homed = []"
  "contactDetected homed" "pins homed = (\<lambda>p. if p = ENA_PIN then HIGH else LOW)"
  by (simp_all add: homed_def)

lemma calibrated_on_the_stop:
  "runCalibration line_asserted boot = Some homed"
  "runCalibration leaving_stop boot = Some homed"
  by (simp_all add: runCalibration_def Let_def homed_def boot_def setup_sketch_def globals_def
      println_def print_def digitalWrite_def digitalRead_def line_asserted_def leaving_stop_def
      fun_eq_iff contactLowPin_def DIR_PIN_def ENA_PIN_def)

section \<open>Rest\<close>

text \<open>
  C8. \<open>stopMotor\<close> (the REST sequence) drives the enable line high, which disables the
  driver, and reports the current position; for every prior state the tracked position
  and the calibration flag after it equal their values before it, and no pulse is issued.
\<close>

theorem rest_keeps_position_and_calibration:
  "pins (stopMotor s) ENA_PIN = HIGH \<and>
   serial (stopMotor s) = serial s @ ''Entering Rest State.'' @ [CHR 0x0D, CHR 0x0A]
      @ ''POSITION:'' @ printFloat (currentPosition s) 6 @ [CHR 0x0D, CHR 0x0A] \<and>
   currentPosition (stopMotor s) = currentPosition s \<and>
   isCalibrated (stopMotor s) = isCalibrated s \<and>
   pulses (stopMotor s) = pulses s"
  by (simp add: stopMotor_def Let_def)

section \<open>The calibration gate\<close>

text \<open>
  C5. When the axis is not calibrated, \<open>moveToTarget\<close>, \<open>manualStepCCW\<close> and
  \<open>manualStepCW\<close> only print \<open>ERROR:NOT_CALIBRATED\<close>: the state they return is the
  state they got with that line appended to the serial output, so no pulse is issued and
  the position, the calibration flag and every pin (the direction line among them) are
  unchanged.
\<close>

theorem not_calibrated_gate:
  assumes "\<not> isCalibrated s"
  shows "moveToTarget e mm s = println ''ERROR:NOT_CALIBRATED'' s \<and>
         manualStepCCW e s = println ''ERROR:NOT_CALIBRATED'' s \<and>
         manualStepCW e s = println ''ERROR:NOT_CALIBRATED'' s \<and>
         (\<forall>s' \<in> {moveToTarget e mm s, manualStepCCW e s, manualStepCW e s}.
            pulses s' = pulses s \<and> currentPosition s' = currentPosition s \<and>
            isCalibrated s' = isCalibrated s \<and> pins s' = pins s \<and>
            contactDetected s' = contactDetected s \<and>
            serial s' = serial s @ ''ERROR:NOT_CALIBRATED'' @ [CHR 0x0D, CHR 0x0A])"
  using assms by (simp add: moveToTarget_def manualStepCCW_def manualStepCW_def)

theorem not_calibrated_gate_witness:
  "\<not> isCalibrated boot \<and>
   moveToTarget line_clear 3 boot = println ''ERROR:NOT_CALIBRATED'' boot \<and>
   manualStepCCW line_clear boot = println ''ERROR:NOT_CALIBRATED'' boot \<and>
   manualStepCW line_clear boot = println ''ERROR:NOT_CALIBRATED'' boot \<and>
   pulses (moveToTarget line_clear 3 boot) = [] \<and>
   currentPosition (moveToTarget line_clear 3 boot) = - 999"
proof -
  have h: "\<not> isCalibrated boot" by simp
  show ?thesis using h not_calibrated_gate [OF h, of line_clear 3] by simp
qed

section \<open>The loop of moveToTarget\<close>

lemma move_loop_done: "\<not> i < a \<Longrightarrow> move_loop e stm a sp i s = s"
  by (subst move_loop.simps) simp

lemma move_loop_step:
  "i < a \<Longrightarrow> move_loop e stm a sp i s =
     (if contactLine e (length (pulses (move_body e stm sp i s))) = LOW \<and>
         pins (move_body e stm sp i s) DIR_PIN = LOW
      then println ''ERROR:Unexpected contact detected!''
             (println (printFloat (currentPosition (move_body e stm sp i s)) 6)
                (print ''POSITION:'' (move_body e stm sp i s)))
      else move_loop e stm a sp (i + 1) (move_body e stm sp i s))"
  by (subst move_loop.simps) (simp add: move_body_def Let_def)

lemma move_body_fields [simp]:
  "currentPosition (move_body e stm sp i s) =
     (if stm > 0 then sp + of_int i * MM_PER_PULSE else sp - of_int i * MM_PER_PULSE)"
  "contactDetected (move_body e stm sp i s) = (contactDetected s \<or> fallingEdge e (length (pulses s)))"
  "isCalibrated (move_body e stm sp i s) = isCalibrated s"
  "manualControlActive (move_body e stm sp i s) = manualControlActive s"
  "forceRest (move_body e stm sp i s) = forceRest s"
  "pins (move_body e stm sp i s) = (pins s)(PUL_PIN := LOW)"
  "pulses (move_body e stm sp i s) = pulses s @ [pins s DIR_PIN]"
  by (simp_all add: move_body_def Let_def)

lemma move_loop_run:
  "\<exists>n. int n \<le> max 0 (a - i) \<and>
       pulses (move_loop e stm a sp i s) = pulses s @ replicate n (pins s DIR_PIN) \<and>
       pins (move_loop e stm a sp i s) DIR_PIN = pins s DIR_PIN \<and>
       pins (move_loop e stm a sp i s) ENA_PIN = pins s ENA_PIN \<and>
       isCalibrated (move_loop e stm a sp i s) = isCalibrated s \<and>
       currentPosition (move_loop e stm a sp i s) =
         (if n = 0 then currentPosition s
          else if stm > 0 then sp + of_int (i + int n - 1) * MM_PER_PULSE
          else sp - of_int (i + int n - 1) * MM_PER_PULSE) \<and>
       (\<forall>j. 0 < j \<and> j < n \<longrightarrow>
            \<not> (contactLine e (length (pulses s) + j) = LOW \<and> pins s DIR_PIN = LOW)) \<and>
       (int n < a - i \<longrightarrow>
            0 < n \<and> contactLine e (length (pulses s) + n) = LOW \<and> pins s DIR_PIN = LOW)"
proof (induction "nat (a - i)" arbitrary: i s)
  case 0
  then have "\<not> i < a" by simp
  then have "move_loop e stm a sp i s = s" by (rule move_loop_done)
  with \<open>\<not> i < a\<close> show ?case by (intro exI [of _ 0]) simp
next
  case (Suc m)
  then have lt: "i < a" by simp
  let ?d = "pins s DIR_PIN"
  let ?b = "move_body e stm sp i s"
  show ?case
  proof (cases "contactLine e (Suc (length (pulses s))) = LOW \<and> ?d = LOW")
    case True
    then have "move_loop e stm a sp i s =
        println ''ERROR:Unexpected contact detected!''
          (println (printFloat (currentPosition ?b) 6) (print ''POSITION:'' ?b))"
      using lt by (simp add: move_loop_step)
    with True lt show ?thesis by (intro exI [of _ 1]) simp
  next
    case False
    then have eq: "move_loop e stm a sp i s = move_loop e stm a sp (i + 1) ?b"
      using lt by (auto simp: move_loop_step)
    from Suc have m: "m = nat (a - (i + 1))" by simp
    from Suc.hyps(1) [OF m, of ?b] obtain n where
      n: "int n \<le> max 0 (a - (i + 1))"
         "pulses (move_loop e stm a sp (i + 1) ?b) = pulses ?b @ replicate n (pins ?b DIR_PIN)"
         "pins (move_loop e stm a sp (i + 1) ?b) DIR_PIN = pins ?b DIR_PIN"
         "pins (move_loop e stm a sp (i + 1) ?b) ENA_PIN = pins ?b ENA_PIN"
         "isCalibrated (move_loop e stm a sp (i + 1) ?b) = isCalibrated ?b"
         "currentPosition (move_loop e stm a sp (i + 1) ?b) =
           (if n = 0 then currentPosition ?b
            else if stm > 0 then sp + of_int (i + 1 + int n - 1) * MM_PER_PULSE
            else sp - of_int (i + 1 + int n - 1) * MM_PER_PULSE)"
         "\<forall>j. 0 < j \<and> j < n \<longrightarrow>
            \<not> (contactLine e (length (pulses ?b) + j) = LOW \<and> pins ?b DIR_PIN = LOW)"
         "int n < a - (i + 1) \<longrightarrow>
            0 < n \<and> contactLine e (length (pulses ?b) + n) = LOW \<and> pins ?b DIR_PIN = LOW"
      by blast
    have c1: "int (Suc n) \<le> max 0 (a - i)" using n(1) lt by simp
    have c2: "pulses (move_loop e stm a sp i s) = pulses s @ replicate (Suc n) ?d"
      using n(2) eq by (simp add: replicate_append_same)
    have c3: "pins (move_loop e stm a sp i s) DIR_PIN = ?d"
      "pins (move_loop e stm a sp i s) ENA_PIN = pins s ENA_PIN"
      "isCalibrated (move_loop e stm a sp i s) = isCalibrated s"
      using n(3,4,5) eq by simp_all
    have c4: "currentPosition (move_loop e stm a sp i s) =
         (if stm > 0 then sp + of_int (i + int (Suc n) - 1) * MM_PER_PULSE
          else sp - of_int (i + int (Suc n) - 1) * MM_PER_PULSE)"
      using n(6) eq by (cases "n = 0") simp_all
    have c5: "\<forall>j. 0 < j \<and> j < Suc n \<longrightarrow>
            \<not> (contactLine e (length (pulses s) + j) = LOW \<and> ?d = LOW)"
    proof (intro allI impI)
      fix j assume j: "0 < j \<and> j < Suc n"
      show "\<not> (contactLine e (length (pulses s) + j) = LOW \<and> ?d = LOW)"
      proof (cases "j = 1")
        case True
        with False show ?thesis by simp
      next
        case False
        with j obtain j' where j': "j = Suc j'" "0 < j'" "j' < n" by (cases j) auto
        with n(7) show ?thesis by auto
      qed
    qed
    have c6: "int (Suc n) < a - i \<longrightarrow>
            0 < Suc n \<and> contactLine e (length (pulses s) + Suc n) = LOW \<and> ?d = LOW"
      using n(8) by auto
    from c1 c2 c3 c4 c5 c6 show ?thesis by (intro exI [of _ "Suc n"]) simp
  qed
qed






lemma moveToTarget_run:
  assumes "isCalibrated s"
  shows "\<exists>n. int n \<le> \<bar>stepsToMove (currentPosition s) mm\<bar> \<and>
       pulses (moveToTarget e mm s) = pulses s @ replicate n (if stepsToMove (currentPosition s) mm > 0 then HIGH else LOW) \<and>
       pins (moveToTarget e mm s) DIR_PIN = (if stepsToMove (currentPosition s) mm > 0 then HIGH else LOW) \<and>
       pins (moveToTarget e mm s) ENA_PIN = LOW \<and>
       isCalibrated (moveToTarget e mm s) \<and>
       currentPosition (moveToTarget e mm s) =
         (if n = 0 then currentPosition s
          else if stepsToMove (currentPosition s) mm > 0
          then currentPosition s + of_int (int n - 1) * MM_PER_PULSE
          else currentPosition s - of_int (int n - 1) * MM_PER_PULSE) \<and>
       (\<forall>j. 0 < j \<and> j < n \<longrightarrow>
            \<not> (contactLine e (length (pulses s) + j) = LOW \<and> stepsToMove (currentPosition s) mm \<le> 0)) \<and>
       (int n < \<bar>stepsToMove (currentPosition s) mm\<bar> \<longrightarrow>
            0 < n \<and> contactLine e (length (pulses s) + n) = LOW \<and> stepsToMove (currentPosition s) mm \<le> 0)"
proof -
  define stm where "stm = stepsToMove (currentPosition s) mm"
  define d where "d = (if stm > 0 then HIGH else LOW)"
  define s6 where "s6 = digitalWrite ENA_PIN LOW (digitalWrite DIR_PIN d
      (println (printLong stm) (print ''Steps to move: ''
        (println (printFloat mm 6) (print ''Moving to target distance: '' s)))))"
  define s7 where "s7 = move_loop e stm (abs_long stm) (currentPosition s) 0 s6"
  have s6: "pulses s6 = pulses s" "pins s6 DIR_PIN = d" "pins s6 ENA_PIN = LOW"
    "isCalibrated s6" "currentPosition s6 = currentPosition s"
    using assms by (simp_all add: s6_def)
  have abs: "abs_long stm = \<bar>stm\<bar>" by (simp add: abs_long_def)
  have res: "moveToTarget e mm s = println ''STATUS:TARGET_COMPLETE''
      (println (printFloat (currentPosition s7) 6) (print ''POSITION:'' s7))"
    using assms by (simp add: moveToTarget_def Let_def s7_def s6_def stm_def d_def)
  have dlow: "d = LOW \<longleftrightarrow> stm \<le> 0" by (simp add: d_def)
  from move_loop_run [of "abs_long stm" 0 e stm "currentPosition s" s6]
  obtain n where n: "int n \<le> max 0 (abs_long stm - 0)"
      "pulses s7 = pulses s6 @ replicate n (pins s6 DIR_PIN)"
      "pins s7 DIR_PIN = pins s6 DIR_PIN"
      "pins s7 ENA_PIN = pins s6 ENA_PIN"
      "isCalibrated s7 = isCalibrated s6"
      "currentPosition s7 =
         (if n = 0 then currentPosition s6
          else if stm > 0 then currentPosition s + of_int (0 + int n - 1) * MM_PER_PULSE
          else currentPosition s - of_int (0 + int n - 1) * MM_PER_PULSE)"
      "\<forall>j. 0 < j \<and> j < n \<longrightarrow>
            \<not> (contactLine e (length (pulses s6) + j) = LOW \<and> pins s6 DIR_PIN = LOW)"
      "int n < abs_long stm - 0 \<longrightarrow>
            0 < n \<and> contactLine e (length (pulses s6) + n) = LOW \<and> pins s6 DIR_PIN = LOW"
    unfolding s7_def by blast
  have "int n \<le> \<bar>stm\<bar>" using n(1) abs by simp
  moreover have "pulses (moveToTarget e mm s) = pulses s @ replicate n d"
    using n(2) s6 res by simp
  moreover have "pins (moveToTarget e mm s) DIR_PIN = d" "pins (moveToTarget e mm s) ENA_PIN = LOW"
    "isCalibrated (moveToTarget e mm s)"
    using n(3,4,5) s6 res by simp_all
  moreover have "currentPosition (moveToTarget e mm s) =
         (if n = 0 then currentPosition s
          else if stm > 0 then currentPosition s + of_int (int n - 1) * MM_PER_PULSE
          else currentPosition s - of_int (int n - 1) * MM_PER_PULSE)"
    using n(6) s6 res by simp
  moreover have "\<forall>j. 0 < j \<and> j < n \<longrightarrow> \<not> (contactLine e (length (pulses s) + j) = LOW \<and> stm \<le> 0)"
    using n(7) s6 dlow by simp
  moreover have "int n < \<bar>stm\<bar> \<longrightarrow> 0 < n \<and> contactLine e (length (pulses s) + n) = LOW \<and> stm \<le> 0"
    using n(8) s6 dlow abs by simp
  ultimately show ?thesis unfolding stm_def [symmetric] d_def [symmetric] by blast
qed

section \<open>Target moves: step counts and tracked position\<close>

lemma env_fields [simp]:
  "contactLine line_clear k = HIGH" "\<not> fallingEdge line_clear k"
  "contactLine line_asserted k = LOW" "\<not> fallingEdge line_asserted k"
  "contactLine leaving_stop k = (if k = 0 then LOW else HIGH)" "\<not> fallingEdge leaving_stop k"
  by (simp_all add: line_clear_def line_asserted_def leaving_stop_def)

lemma contact_after_fields:
  "contactLine (contact_after n) k = LOW \<longleftrightarrow> n \<le> k"
  "contactLine (contact_after n) k = HIGH \<longleftrightarrow> k < n"
  "fallingEdge (contact_after n) k \<longleftrightarrow> Suc k = n"
  by (simp_all add: contact_after_def)

lemma moveToTarget_unobstructed:
  assumes "isCalibrated s"
    and "\<forall>j. 0 < j \<and> int j \<le> \<bar>stepsToMove (currentPosition s) mm\<bar> \<longrightarrow>
            contactLine e (length (pulses s) + j) = HIGH \<or> stepsToMove (currentPosition s) mm > 0"
  shows "pulses (moveToTarget e mm s) = pulses s @ replicate (nat \<bar>stepsToMove (currentPosition s) mm\<bar>)
            (if stepsToMove (currentPosition s) mm > 0 then HIGH else LOW) \<and>
         isCalibrated (moveToTarget e mm s) \<and>
         currentPosition (moveToTarget e mm s) =
           (if stepsToMove (currentPosition s) mm = 0 then currentPosition s
            else if stepsToMove (currentPosition s) mm > 0
            then currentPosition s + of_int (\<bar>stepsToMove (currentPosition s) mm\<bar> - 1) * MM_PER_PULSE
            else currentPosition s - of_int (\<bar>stepsToMove (currentPosition s) mm\<bar> - 1) * MM_PER_PULSE)"
proof -
  let ?stm = "stepsToMove (currentPosition s) mm"
  from moveToTarget_run [OF assms(1), of mm e] obtain n where
    n: "int n \<le> \<bar>?stm\<bar>"
       "pulses (moveToTarget e mm s) = pulses s @ replicate n (if ?stm > 0 then HIGH else LOW)"
       "isCalibrated (moveToTarget e mm s)"
       "currentPosition (moveToTarget e mm s) =
         (if n = 0 then currentPosition s
          else if ?stm > 0 then currentPosition s + of_int (int n - 1) * MM_PER_PULSE
          else currentPosition s - of_int (int n - 1) * MM_PER_PULSE)"
       "int n < \<bar>?stm\<bar> \<longrightarrow> 0 < n \<and> contactLine e (length (pulses s) + n) = LOW \<and> ?stm \<le> 0"
    by blast
  have "\<not> int n < \<bar>?stm\<bar>"
  proof
    assume lt: "int n < \<bar>?stm\<bar>"
    with n(5) have "0 < n" "contactLine e (length (pulses s) + n) = LOW" "?stm \<le> 0" by auto
    moreover from assms(2) lt \<open>0 < n\<close>
    have "contactLine e (length (pulses s) + n) = HIGH \<or> ?stm > 0" by auto
    ultimately show False by auto
  qed
  with n(1) have eq: "int n = \<bar>?stm\<bar>" by simp
  then have "n = nat \<bar>?stm\<bar>" by simp
  moreover have "n = 0 \<longleftrightarrow> ?stm = 0" using eq by auto
  ultimately show ?thesis using n(2,3,4) eq by simp
qed

lemma moveToTarget_toward:
  assumes cal: "isCalibrated s"
    and stm: "stepsToMove (currentPosition s) mm = - int k"
    and m: "m \<le> k"
      "\<forall>j. 0 < j \<and> j < m \<longrightarrow> contactLine e (length (pulses s) + j) = HIGH"
      "m < k \<longrightarrow> 0 < m \<and> contactLine e (length (pulses s) + m) = LOW"
  shows "pulses (moveToTarget e mm s) = pulses s @ replicate m LOW \<and>
         pins (moveToTarget e mm s) DIR_PIN = LOW \<and>
         isCalibrated (moveToTarget e mm s) \<and>
         currentPosition (moveToTarget e mm s) =
           (if m = 0 then currentPosition s
            else currentPosition s - of_int (int m - 1) * MM_PER_PULSE)"
proof -
  let ?stm = "stepsToMove (currentPosition s) mm"
  from moveToTarget_run [OF cal, of mm e] obtain n where
    n: "int n \<le> \<bar>?stm\<bar>"
       "pulses (moveToTarget e mm s) = pulses s @ replicate n (if ?stm > 0 then HIGH else LOW)"
       "pins (moveToTarget e mm s) DIR_PIN = (if ?stm > 0 then HIGH else LOW)"
       "isCalibrated (moveToTarget e mm s)"
       "currentPosition (moveToTarget e mm s) =
         (if n = 0 then currentPosition s
          else if ?stm > 0 then currentPosition s + of_int (int n - 1) * MM_PER_PULSE
          else currentPosition s - of_int (int n - 1) * MM_PER_PULSE)"
       "\<forall>j. 0 < j \<and> j < n \<longrightarrow> \<not> (contactLine e (length (pulses s) + j) = LOW \<and> ?stm \<le> 0)"
       "int n < \<bar>?stm\<bar> \<longrightarrow> 0 < n \<and> contactLine e (length (pulses s) + n) = LOW \<and> ?stm \<le> 0"
    by blast
  have nk: "n \<le> k" using n(1) stm by simp
  have "\<not> n < m"
  proof
    assume lt: "n < m"
    with m(1) stm have "int n < \<bar>?stm\<bar>" by simp
    with n(7) have "0 < n" "contactLine e (length (pulses s) + n) = LOW" by auto
    with m(2) lt show False by auto
  qed
  moreover have "\<not> m < n"
  proof
    assume lt: "m < n"
    with nk m(3) have "0 < m" "contactLine e (length (pulses s) + m) = LOW" by auto
    with n(6) lt stm show False by auto
  qed
  ultimately have "n = m" by simp
  with n(2,3,4,5) stm show ?thesis by simp
qed

lemma steps_0_5: "stepsToMove 0 5 = 98425"
  by (simp add: stepsToMove_def snappedTarget_def targetSteps_def round_long_def to_long_def MM_PER_PULSE_def)

lemma steps_again_5: "stepsToMove (98424 * MM_PER_PULSE) 5 = 1"
  by (simp add: stepsToMove_def snappedTarget_def targetSteps_def round_long_def to_long_def MM_PER_PULSE_def)

lemma steps_0_neg1: "stepsToMove 0 (- 1) = - 19685"
  by (simp add: stepsToMove_def snappedTarget_def targetSteps_def round_long_def to_long_def MM_PER_PULSE_def)

lemma steps_20_0: "stepsToMove (20 * MM_PER_PULSE) 0 = - 20"
  by (simp add: stepsToMove_def snappedTarget_def targetSteps_def round_long_def to_long_def MM_PER_PULSE_def)


lemma moved_5:
  "pulses (moveToTarget leaving_stop 5 homed) = replicate 98425 HIGH \<and>
   isCalibrated (moveToTarget leaving_stop 5 homed) \<and>
   currentPosition (moveToTarget leaving_stop 5 homed) = 98424 * MM_PER_PULSE"
  using moveToTarget_unobstructed [of homed 5 leaving_stop] by (simp add: steps_0_5)

text \<open>
  C2. The claim: at every point of the loop of \<open>moveToTarget\<close>, and on an early abort,
  the tracked position is the start position plus the number of pulses issued times the
  pulse resolution, signed by direction. The loop assigns
  \<open>startPosition \<plusminus> i * MM_PER_PULSE\<close> after pulse number \<open>i + 1\<close>, so the tracked
  position counts one pulse less than were issued. After \<open>TARGET:5\<close> from the calibrated
  zero, 98425 pulses have been issued and the position is 98424 steps; a move from 20
  steps toward the hard-stop that the contact aborts after 4 pulses leaves the position
  at 17 steps, not 16.
\<close>

theorem tracked_position_lags_one_pulse:
  "runCalibration leaving_stop boot = Some homed \<and>
   pulses (moveToTarget leaving_stop 5 homed) = replicate 98425 HIGH \<and>
   currentPosition (moveToTarget leaving_stop 5 homed) = 0 + 98424 * MM_PER_PULSE \<and>
   currentPosition (moveToTarget leaving_stop 5 homed) \<noteq> 0 + 98425 * MM_PER_PULSE \<and>
   pulses (moveToTarget (contact_after 4) 0 (homed\<lparr>currentPosition := 20 * MM_PER_PULSE\<rparr>))
     = replicate 4 LOW \<and>
   currentPosition (moveToTarget (contact_after 4) 0 (homed\<lparr>currentPosition := 20 * MM_PER_PULSE\<rparr>))
     = 20 * MM_PER_PULSE - 3 * MM_PER_PULSE"
proof -
  let ?s = "homed\<lparr>currentPosition := 20 * MM_PER_PULSE\<rparr>"
  have "pulses (moveToTarget (contact_after 4) 0 ?s) = replicate 4 LOW"
    "currentPosition (moveToTarget (contact_after 4) 0 ?s) = 20 * MM_PER_PULSE - 3 * MM_PER_PULSE"
    using moveToTarget_toward [of ?s 0 20 4 "contact_after 4"]
    by (simp_all add: steps_20_0 contact_after_fields)
  moreover have "(98424::real) * MM_PER_PULSE \<noteq> 98425 * MM_PER_PULSE"
    by (simp add: MM_PER_PULSE_def)
  ultimately show ?thesis using moved_5 by (simp add: calibrated_on_the_stop)
qed

text \<open>
  C3. The claim: after \<open>moveTo x\<close> completes, a second \<open>moveTo x\<close> issues no step. Because
  the tracked position lags the pulses by one step, the second \<open>TARGET:5\<close> plans one step
  and issues one more pulse away from the hard-stop, while the tracked position stays
  where it was: every repetition moves the axis one step further.
\<close>

theorem repeated_target_issues_a_step:
  "runCalibration leaving_stop boot = Some homed \<and>
   pulses (moveToTarget leaving_stop 5 homed) = replicate 98425 HIGH \<and>
   stepsToMove (currentPosition (moveToTarget leaving_stop 5 homed)) 5 = 1 \<and>
   pulses (moveToTarget leaving_stop 5 (moveToTarget leaving_stop 5 homed))
     = pulses (moveToTarget leaving_stop 5 homed) @ [HIGH] \<and>
   currentPosition (moveToTarget leaving_stop 5 (moveToTarget leaving_stop 5 homed))
     = currentPosition (moveToTarget leaving_stop 5 homed)"
proof -
  let ?s1 = "moveToTarget leaving_stop 5 homed"
  have s1: "isCalibrated ?s1" "currentPosition ?s1 = 98424 * MM_PER_PULSE"
    "pulses ?s1 = replicate 98425 HIGH"
    using moved_5 by simp_all
  have stm: "stepsToMove (currentPosition ?s1) 5 = 1" by (simp add: s1 steps_again_5)
  from moveToTarget_unobstructed [of ?s1 5 leaving_stop] s1(1) stm
  have "pulses (moveToTarget leaving_stop 5 ?s1) = pulses ?s1 @ [HIGH]"
    "currentPosition (moveToTarget leaving_stop 5 ?s1) = currentPosition ?s1"
    by simp_all
  with s1(3) stm show ?thesis by (simp add: calibrated_on_the_stop)
qed

text \<open>
  C1. The claim: in \<open>moveToTarget\<close> the contact check comes before each pulse, so that no
  pulse is issued once the contact line reads asserted at a pulse boundary of a move
  toward the hard-stop. The loop pulses first and checks afterwards, and nothing checks
  the line before the first pulse: with the axis calibrated on the hard-stop and the
  contact line asserted throughout, \<open>CALIBRATE\<close> returns without a pulse, and
  \<open>TARGET:-1\<close> then selects the direction toward the hard-stop and issues one pulse
  before the check stops the move.
\<close>

theorem pulse_issued_while_in_contact:
  "runCalibration line_asserted boot = Some homed \<and>
   isCalibrated homed \<and>
   contactLine line_asserted (length (pulses homed)) = LOW \<and>
   pins (moveToTarget line_asserted (- 1) homed) DIR_PIN = LOW \<and>
   pulses (moveToTarget line_asserted (- 1) homed) = pulses homed @ [LOW]"
  using moveToTarget_toward [of homed "- 1" 19685 1 line_asserted]
  by (auto simp: steps_0_neg1 calibrated_on_the_stop)

section \<open>Targets below the current position\<close>














section \<open>The jog toward the hard-stop\<close>

lemma ccw_loop_done: "\<not> i < STEPS_PER_COMMAND \<Longrightarrow> ccw_loop e i s = s"
  by (subst ccw_loop.simps) simp

lemma ccw_loop_contact:
  "i < STEPS_PER_COMMAND \<Longrightarrow> contactLine e (length (pulses s)) = LOW \<Longrightarrow>
   ccw_loop e i s = println ''WARNING: Contact detected during movement!'' (s\<lparr>contactDetected := True\<rparr>)"
  by (subst ccw_loop.simps) simp

lemma ccw_loop_step:
  "i < STEPS_PER_COMMAND \<Longrightarrow> contactLine e (length (pulses s)) = HIGH \<Longrightarrow>
   ccw_loop e i s =
     ccw_loop e (i + 1) ((stepMotor e s)\<lparr>currentPosition := currentPosition s - MM_PER_PULSE\<rparr>)"
  by (subst ccw_loop.simps) (simp add: Let_def)

lemma ccw_loop_stops:
  assumes "i + int N < STEPS_PER_COMMAND"
    and "\<forall>j<N. contactLine e (length (pulses s) + j) = HIGH"
    and "contactLine e (length (pulses s) + N) = LOW"
  shows "pulses (ccw_loop e i s) = pulses s @ replicate N (pins s DIR_PIN) \<and>
         currentPosition (ccw_loop e i s) = currentPosition s - of_nat N * MM_PER_PULSE \<and>
         serial (ccw_loop e i s) = serial s @ ''WARNING: Contact detected during movement!''
            @ [CHR 0x0D, CHR 0x0A] \<and>
         contactDetected (ccw_loop e i s) \<and>
         isCalibrated (ccw_loop e i s) = isCalibrated s \<and>
         pins (ccw_loop e i s) DIR_PIN = pins s DIR_PIN \<and>
         pins (ccw_loop e i s) ENA_PIN = pins s ENA_PIN"
  using assms
proof (induction N arbitrary: i s)
  case 0
  then show ?case by (simp add: ccw_loop_contact)
next
  case (Suc N)
  let ?s1 = "(stepMotor e s)\<lparr>currentPosition := currentPosition s - MM_PER_PULSE\<rparr>"
  from Suc.prems have lt: "i < STEPS_PER_COMMAND" and high: "contactLine e (length (pulses s)) = HIGH"
    by auto
  then have eq: "ccw_loop e i s = ccw_loop e (i + 1) ?s1" by (rule ccw_loop_step)
  have "(i + 1) + int N < STEPS_PER_COMMAND" using Suc.prems(1) by simp
  moreover have "\<forall>j<N. contactLine e (length (pulses ?s1) + j) = HIGH"
    using Suc.prems(2) by auto
  moreover have "contactLine e (length (pulses ?s1) + N) = LOW"
    using Suc.prems(3) by simp
  ultimately have ih:
    "pulses (ccw_loop e (i + 1) ?s1) = pulses ?s1 @ replicate N (pins ?s1 DIR_PIN)"
    "currentPosition (ccw_loop e (i + 1) ?s1) = currentPosition ?s1 - of_nat N * MM_PER_PULSE"
    "serial (ccw_loop e (i + 1) ?s1) = serial ?s1 @ ''WARNING: Contact detected during movement!''
            @ [CHR 0x0D, CHR 0x0A]"
    "contactDetected (ccw_loop e (i + 1) ?s1)"
    "isCalibrated (ccw_loop e (i + 1) ?s1) = isCalibrated ?s1"
    "pins (ccw_loop e (i + 1) ?s1) DIR_PIN = pins ?s1 DIR_PIN"
    "pins (ccw_loop e (i + 1) ?s1) ENA_PIN = pins ?s1 ENA_PIN"
    using Suc.IH [of "i + 1" ?s1] by simp_all
  show ?case
    unfolding eq using ih by (simp add: replicate_append_same algebra_simps)
qed

text \<open>
  C6. In the jog toward the hard-stop the contact line is read before each pulse. If the
  line reads clear at the first \<open>N\<close> pulse boundaries of the batch and asserted at the
  next one, with \<open>N\<close> below \<open>STEPS_PER_COMMAND\<close>, then exactly \<open>N\<close> pulses are issued,
  all toward the hard-stop, the position is decremented by \<open>N\<close> times the pulse
  resolution, and the batch ends with a warning line and nothing else: the contact flag
  is set and the axis stays calibrated.
\<close>

theorem ccw_jog_stops_at_contact:
  assumes "isCalibrated s" and "int N < STEPS_PER_COMMAND"
    and "\<forall>j<N. contactLine e (length (pulses s) + j) = HIGH"
    and "contactLine e (length (pulses s) + N) = LOW"
  shows "pulses (manualStepCCW e s) = pulses s @ replicate N LOW \<and>
         currentPosition (manualStepCCW e s) = currentPosition s - of_nat N * MM_PER_PULSE \<and>
         serial (manualStepCCW e s) = serial s @
            (if N = 0 then ''WARNING: Contact already detected!''
             else ''WARNING: Contact detected during movement!'') @ [CHR 0x0D, CHR 0x0A] \<and>
         contactDetected (manualStepCCW e s) \<and>
         isCalibrated (manualStepCCW e s)"
proof (cases "N = 0")
  case True
  with assms show ?thesis by (simp add: manualStepCCW_def Let_def)
next
  case False
  let ?s3 = "(digitalWrite ENA_PIN LOW (digitalWrite DIR_PIN LOW s))\<lparr>contactDetected := False\<rparr>"
  from False assms(3) have "contactLine e (length (pulses s)) = HIGH" by auto
  then have eq: "manualStepCCW e s = ccw_loop e 0 ?s3"
    using assms(1) by (simp add: manualStepCCW_def Let_def)
  have "pulses ?s3 = pulses s" by simp
  with assms have "0 + int N < STEPS_PER_COMMAND"
    "\<forall>j<N. contactLine e (length (pulses ?s3) + j) = HIGH"
    "contactLine e (length (pulses ?s3) + N) = LOW"
    by simp_all
  from ccw_loop_stops [OF this] False assms(1) show ?thesis
    unfolding eq by simp
qed

theorem ccw_jog_stops_at_contact_witness:
  "isCalibrated homed \<and> int 5 < STEPS_PER_COMMAND \<and>
   contactLine (contact_after 5) 4 = HIGH \<and> contactLine (contact_after 5) 5 = LOW \<and>
   pulses (manualStepCCW (contact_after 5) homed) = replicate 5 LOW \<and>
   currentPosition (manualStepCCW (contact_after 5) homed) = - (5 * MM_PER_PULSE) \<and>
   contactDetected (manualStepCCW (contact_after 5) homed)"
proof -
  have h: "isCalibrated homed" "int 5 < STEPS_PER_COMMAND"
    "\<forall>j<5. contactLine (contact_after 5) (length (pulses homed) + j) = HIGH"
    "contactLine (contact_after 5) (length (pulses homed) + 5) = LOW"
    by (simp_all add: STEPS_PER_COMMAND_def contact_after_fields)
  from ccw_jog_stops_at_contact [OF h] h(2) show ?thesis
    by (simp add: contact_after_fields)
qed

section \<open>Calibration\<close>

lemma calibration_loop_done: "contactDetected s \<Longrightarrow> calibration_loop e s = Some s"
  by (subst calibration_loop.simps) simp

lemma calibration_loop_step:
  "\<not> contactDetected s \<Longrightarrow> calibration_loop e s = calibration_loop e (stepMotor e s)"
  by (subst calibration_loop.simps) simp

lemma calibration_loop_returns:
  "fallingEdge e k \<Longrightarrow> length (pulses s) \<le> k \<Longrightarrow> \<exists>s'. calibration_loop e s = Some s'"
proof (induction "k - length (pulses s)" arbitrary: s)
  case 0
  show ?case
  proof (cases "contactDetected s")
    case True
    then show ?thesis by (simp add: calibration_loop_done)
  next
    case False
    from 0 have "k = length (pulses s)" by simp
    with 0 have "contactDetected (stepMotor e s)" by simp
    then have "calibration_loop e (stepMotor e s) = Some (stepMotor e s)"
      by (rule calibration_loop_done)
    with False show ?thesis by (simp add: calibration_loop_step)
  qed
next
  case (Suc d)
  show ?case
  proof (cases "contactDetected s")
    case True
    then show ?thesis by (simp add: calibration_loop_done)
  next
    case False
    from Suc.hyps(2) have "d = k - length (pulses (stepMotor e s))"
      "length (pulses (stepMotor e s)) \<le> k" by simp_all
    from Suc.hyps(1) [OF this(1) Suc.prems(1) this(2)] False
    show ?thesis by (simp add: calibration_loop_step)
  qed
qed

lemma calibration_loop_needs_edge:
  assumes ret: "calibration_loop e s = Some s'"
  shows "contactDetected s \<or> (\<exists>k\<ge>length (pulses s). fallingEdge e k)"
proof (rule calibration_loop.raw_induct
    [where P = "\<lambda>e s r. contactDetected s \<or> (\<exists>k\<ge>length (pulses s). fallingEdge e k)", OF _ ret])
  fix f e s r
  assume ih: "\<And>e s r. f e s = Some r \<Longrightarrow>
      contactDetected s \<or> (\<exists>k\<ge>length (pulses s). fallingEdge e k)"
    and eq: "(if \<not> contactDetected s then f e (stepMotor e s) else Some s) = Some r"
  show "contactDetected s \<or> (\<exists>k\<ge>length (pulses s). fallingEdge e k)"
  proof (cases "contactDetected s")
    case True
    then show ?thesis by simp
  next
    case False
    with eq have "f e (stepMotor e s) = Some r" by simp
    from ih [OF this] have "fallingEdge e (length (pulses s)) \<or>
        (\<exists>k\<ge>Suc (length (pulses s)). fallingEdge e k)" using False by simp
    then show ?thesis
    proof
      assume "fallingEdge e (length (pulses s))"
      then show ?thesis by blast
    next
      assume "\<exists>k\<ge>Suc (length (pulses s)). fallingEdge e k"
      then obtain k where "Suc (length (pulses s)) \<le> k" "fallingEdge e k" by blast
      then have "length (pulses s) \<le> k \<and> fallingEdge e k" by simp
      then show ?thesis by blast
    qed
  qed
qed

lemma runCalibration_in_contact:
  assumes "contactLine e (length (pulses s)) = LOW"
  shows "\<exists>s'. runCalibration e s = Some s' \<and> pulses s' = pulses s \<and>
           currentPosition s' = 0 \<and> isCalibrated s' \<and> pins s' ENA_PIN = HIGH"
  using assms by (simp add: runCalibration_def Let_def)

lemma runCalibration_loop:
  assumes "contactLine e (length (pulses s)) \<noteq> LOW"
  shows "runCalibration e s =
     (case calibration_loop e
        ((digitalWrite ENA_PIN LOW (digitalWrite DIR_PIN LOW (digitalWrite contactLowPin LOW
            (println ''STATUS:CALIBRATION_START'' s))))\<lparr>contactDetected := False\<rparr>) of
        None \<Rightarrow> None
      | Some s6 \<Rightarrow> Some (println ''STATUS:CALIBRATION_COMPLETE'' (println ''POSITION:0''
            (digitalWrite ENA_PIN HIGH (s6\<lparr>currentPosition := 0, isCalibrated := True\<rparr>)))))"
  using assms by (simp add: runCalibration_def Let_def split: option.splits)

lemma runCalibration_post:
  assumes "runCalibration e s = Some s'"
  shows "currentPosition s' = 0 \<and> isCalibrated s' \<and> pins s' ENA_PIN = HIGH"
proof (cases "contactLine e (length (pulses s)) = LOW")
  case True
  from runCalibration_in_contact [OF True] assms show ?thesis by auto
next
  case False
  from assms show ?thesis
    unfolding runCalibration_loop [OF False] by (auto split: option.splits)
qed

lemma runCalibration_returns_iff:
  "runCalibration e s \<noteq> None \<longleftrightarrow>
     contactLine e (length (pulses s)) = LOW \<or> (\<exists>k\<ge>length (pulses s). fallingEdge e k)"
proof (cases "contactLine e (length (pulses s)) = LOW")
  case True
  from runCalibration_in_contact [OF True] True show ?thesis by auto
next
  case False
  let ?s5 = "(digitalWrite ENA_PIN LOW (digitalWrite DIR_PIN LOW (digitalWrite contactLowPin LOW
            (println ''STATUS:CALIBRATION_START'' s))))\<lparr>contactDetected := False\<rparr>"
  have p: "pulses ?s5 = pulses s" "\<not> contactDetected ?s5" by simp_all
  have "runCalibration e s \<noteq> None \<longleftrightarrow> calibration_loop e ?s5 \<noteq> None"
    unfolding runCalibration_loop [OF False] by (simp split: option.splits)
  also have "\<dots> \<longleftrightarrow> (\<exists>k\<ge>length (pulses s). fallingEdge e k)"
  proof
    assume "calibration_loop e ?s5 \<noteq> None"
    then obtain s' where "calibration_loop e ?s5 = Some s'" by auto
    from calibration_loop_needs_edge [OF this] p show "\<exists>k\<ge>length (pulses s). fallingEdge e k"
      by simp
  next
    assume "\<exists>k\<ge>length (pulses s). fallingEdge e k"
    then obtain k where "fallingEdge e k" "length (pulses ?s5) \<le> k" using p by auto
    from calibration_loop_returns [OF this] show "calibration_loop e ?s5 \<noteq> None" by auto
  qed
  finally show ?thesis using False by simp
qed


text \<open>
  C4. The claim: \<open>runCalibration\<close> always terminates with the position zero and the axis
  calibrated. Its loop pulses until the interrupt has set the contact flag and has no
  other exit, so with the contact line clear at entry and no falling edge ever, it does
  not return.
\<close>

theorem calibration_without_contact_never_returns:
  "runCalibration line_clear boot = None"
  using runCalibration_returns_iff [of line_clear boot] by simp

text \<open>
  C4, as the code has it. \<open>runCalibration\<close> returns exactly when the contact line reads
  asserted at entry or the falling-edge interrupt fires during some later pulse.
  Whenever it returns, the position is zero and the axis is calibrated, whatever the
  position and the calibration flag were before. If the line reads asserted at entry it
  returns without a pulse.
\<close>

theorem calibration_zeroes_when_it_returns:
  "(runCalibration e s \<noteq> None \<longleftrightarrow>
      contactLine e (length (pulses s)) = LOW \<or> (\<exists>k\<ge>length (pulses s). fallingEdge e k)) \<and>
   (\<forall>s'. runCalibration e s = Some s' \<longrightarrow> currentPosition s' = 0 \<and> isCalibrated s') \<and>
   (contactLine e (length (pulses s)) = LOW \<longrightarrow>
      (\<exists>s'. runCalibration e s = Some s' \<and> pulses s' = pulses s \<and>
            currentPosition s' = 0 \<and> isCalibrated s'))"
proof (intro conjI allI impI)
  show "runCalibration e s \<noteq> None \<longleftrightarrow>
      contactLine e (length (pulses s)) = LOW \<or> (\<exists>k\<ge>length (pulses s). fallingEdge e k)"
    by (rule runCalibration_returns_iff)
next
  fix s' assume "runCalibration e s = Some s'"
  from runCalibration_post [OF this] show "currentPosition s' = 0" "isCalibrated s'" by simp_all
next
  assume "contactLine e (length (pulses s)) = LOW"
  from runCalibration_in_contact [OF this]
  show "\<exists>s'. runCalibration e s = Some s' \<and> pulses s' = pulses s \<and>
            currentPosition s' = 0 \<and> isCalibrated s'" by blast
qed

theorem calibration_zeroes_when_it_returns_witness:
  "(\<exists>s'. runCalibration (contact_after 3) (homed\<lparr>currentPosition := 20 * MM_PER_PULSE\<rparr>) = Some s' \<and>
         currentPosition s' = 0 \<and> isCalibrated s') \<and>
   contactLine line_asserted (length (pulses boot)) = LOW \<and>
   (\<exists>s'. runCalibration line_asserted boot = Some s' \<and> pulses s' = pulses boot \<and>
         currentPosition s' = 0 \<and> isCalibrated s')"
proof -
  let ?s = "homed\<lparr>currentPosition := 20 * MM_PER_PULSE\<rparr>"
  have "fallingEdge (contact_after 3) 2" "length (pulses ?s) \<le> 2"
    by (simp_all add: contact_after_fields)
  then have "\<exists>k\<ge>length (pulses ?s). fallingEdge (contact_after 3) k" by blast
  with calibration_zeroes_when_it_returns [of "contact_after 3" ?s]
  have "\<exists>s'. runCalibration (contact_after 3) ?s = Some s' \<and> currentPosition s' = 0 \<and> isCalibrated s'"
    by auto
  moreover have low: "contactLine line_asserted (length (pulses boot)) = LOW" by simp
  moreover from calibration_zeroes_when_it_returns [of line_asserted boot] low
  have "\<exists>s'. runCalibration line_asserted boot = Some s' \<and> pulses s' = pulses boot \<and>
         currentPosition s' = 0 \<and> isCalibrated s'" by blast
  ultimately show ?thesis by blast
qed

section \<open>The sentinel position\<close>

lemma digit_char_simps:
  "digit_char 0 = CHR ''0''" "digit_char 1 = CHR ''1''" "digit_char 2 = CHR ''2''"
  "digit_char 3 = CHR ''3''" "digit_char 4 = CHR ''4''" "digit_char 5 = CHR ''5''"
  "digit_char 6 = CHR ''6''" "digit_char 7 = CHR ''7''" "digit_char 8 = CHR ''8''"
  "digit_char 9 = CHR ''9''" "digit_char (Suc 0) = CHR ''1''"
  by (simp_all add: digit_char_def)

lemma printNumber_digit: "n < 10 \<Longrightarrow> printNumber n = [digit_char n]"
  by (simp add: printNumber.simps)

lemma printNumber_more:
  "\<not> n < 10 \<Longrightarrow> printNumber n = printNumber (n div 10) @ [digit_char (n mod 10)]"
  by (subst printNumber.simps) simp

lemma fracDigits_numeral:
  "fracDigits (numeral k) remainder =
     (let r = remainder * 10; toPrint = nat \<lfloor>r\<rfloor>
      in printNumber toPrint @ fracDigits (pred_numeral k) (r - of_nat toPrint))"
  by (simp add: numeral_eq_Suc)

lemma printFloat_sentinel: "printFloat (- 999) 6 = ''-999.000000''"
  apply (simp add: printFloat_def Let_def)
  apply (simp add: fracDigits_numeral Let_def)
  apply (simp add: printNumber_digit printNumber_more digit_char_simps)
  done

lemma manualStopMotor_fields [simp]:
  "currentPosition (manualStopMotor s) = currentPosition s"
  "isCalibrated (manualStopMotor s) = isCalibrated s"
  "pulses (manualStopMotor s) = pulses s"
  "serial (manualStopMotor s) =
     serial s @ ''POSITION:'' @ printFloat (currentPosition s) 6 @ [CHR 0x0D, CHR 0x0A]"
  by (simp_all add: manualStopMotor_def)

lemma stopMotor_fields [simp]:
  "currentPosition (stopMotor s) = currentPosition s"
  "isCalibrated (stopMotor s) = isCalibrated s"
  "pulses (stopMotor s) = pulses s"
  "serial (stopMotor s) = serial s @ ''Entering Rest State.'' @ [CHR 0x0D, CHR 0x0A]
      @ ''POSITION:'' @ printFloat (currentPosition s) 6 @ [CHR 0x0D, CHR 0x0A]"
  by (simp_all add: stopMotor_def Let_def)

lemma trim_commands:
  "trim ''MANUAL:STOP'' = ''MANUAL:STOP''" "trim ''REST'' = ''REST''"
  by (simp_all add: trim_def isspace_def)

lemma loop_command_stop_rest:
  "loop_command e toFloat ''MANUAL:STOP'' s = Some (manualStopMotor s)"
  "loop_command e toFloat ''REST'' s = Some (stopMotor s)"
  by (simp_all add: loop_command_def trim_commands)

lemma loop_command_uncalibrated:
  assumes "trim line \<noteq> ''CALIBRATE''" and "\<not> isCalibrated s" and "currentPosition s = - 999"
  shows "\<exists>s'. loop_command e toFloat line s = Some s' \<and> \<not> isCalibrated s' \<and>
           currentPosition s' = - 999 \<and> pulses s' = pulses s"
  using assms
  by (simp add: loop_command_def Let_def moveToTarget_def manualStepCW_def manualStepCCW_def)

lemma run_commands_uncalibrated:
  assumes "\<forall>line \<in> set lines. trim line \<noteq> ''CALIBRATE''" and "\<not> isCalibrated s"
    and "currentPosition s = - 999"
  shows "\<exists>s'. run_commands e toFloat lines s = Some s' \<and> \<not> isCalibrated s' \<and>
           currentPosition s' = - 999 \<and> pulses s' = pulses s"
  using assms
proof (induction lines arbitrary: s)
  case Nil
  then show ?case by simp
next
  case (Cons line rest)
  from Cons.prems obtain s1 where s1: "loop_command e toFloat line s = Some s1"
    "\<not> isCalibrated s1" "currentPosition s1 = - 999" "pulses s1 = pulses s"
    using loop_command_uncalibrated [of line s e toFloat] by auto
  from Cons.IH [of s1] Cons.prems s1 show ?case by auto
qed

text \<open>
  C9. The position starts at the sentinel \<open>-999\<close>. After any session that holds no
  \<open>CALIBRATE\<close> command the axis is still uncalibrated and the position is still the
  sentinel, and the two reporting commands without a calibration precondition,
  \<open>MANUAL:STOP\<close> and \<open>REST\<close>, print \<open>POSITION:-999.000000\<close>: no marker for an unknown
  position and no error.
\<close>

theorem sentinel_reported_before_calibration:
  assumes "\<forall>line \<in> set lines. trim line \<noteq> ''CALIBRATE''"
  shows "currentPosition globals = - 999 \<and>
         (\<exists>s. run_commands e toFloat lines boot = Some s \<and>
            currentPosition s = - 999 \<and> \<not> isCalibrated s \<and>
            (\<exists>s'. loop_command e toFloat ''MANUAL:STOP'' s = Some s' \<and>
                serial s' = serial s @ ''POSITION:-999.000000'' @ [CHR 0x0D, CHR 0x0A]) \<and>
            (\<exists>s'. loop_command e toFloat ''REST'' s = Some s' \<and>
                serial s' = serial s @ ''Entering Rest State.'' @ [CHR 0x0D, CHR 0x0A]
                  @ ''POSITION:-999.000000'' @ [CHR 0x0D, CHR 0x0A]))"
proof -
  obtain s where s: "run_commands e toFloat lines boot = Some s" "\<not> isCalibrated s"
    "currentPosition s = - 999"
    using run_commands_uncalibrated [OF assms, of boot e toFloat] by auto
  have "serial (manualStopMotor s) = serial s @ ''POSITION:-999.000000'' @ [CHR 0x0D, CHR 0x0A]"
    "serial (stopMotor s) = serial s @ ''Entering Rest State.'' @ [CHR 0x0D, CHR 0x0A]
        @ ''POSITION:-999.000000'' @ [CHR 0x0D, CHR 0x0A]"
    by (simp_all add: s printFloat_sentinel)
  with s show ?thesis by (simp add: loop_command_stop_rest globals_def)
qed

theorem sentinel_reported_before_calibration_witness:
  "trim ''TARGET:3'' \<noteq> ''CALIBRATE'' \<and> trim ''MANUAL:READY'' \<noteq> ''CALIBRATE'' \<and>
   (\<exists>s. run_commands line_clear (\<lambda>t. 3) [''TARGET:3'', ''MANUAL:READY''] boot = Some s \<and>
      currentPosition s = - 999 \<and>
      (\<exists>s'. loop_command line_clear (\<lambda>t. 3) ''MANUAL:STOP'' s = Some s' \<and>
          serial s' = serial s @ ''POSITION:-999.000000'' @ [CHR 0x0D, CHR 0x0A]))"
proof -
  have t: "trim ''TARGET:3'' \<noteq> ''CALIBRATE''" "trim ''MANUAL:READY'' \<noteq> ''CALIBRATE''"
    by (simp_all add: trim_def isspace_def)
  then have h: "\<forall>line \<in> set [''TARGET:3'', ''MANUAL:READY'']. trim line \<noteq> ''CALIBRATE''"
    by simp
  from sentinel_reported_before_calibration [OF h, of line_clear "\<lambda>t. 3"] t
  show ?thesis by blast
qed

section \<open>The latched contact flag\<close>

lemma print_flag: "print t (s\<lparr>contactDetected := b\<rparr>) = (print t s)\<lparr>contactDetected := b\<rparr>"
  by (simp add: print_def)

lemma println_flag: "println t (s\<lparr>contactDetected := b\<rparr>) = (println t s)\<lparr>contactDetected := b\<rparr>"
  by (simp add: println_def print_flag)

lemma digitalWrite_flag:
  "digitalWrite p v (s\<lparr>contactDetected := b\<rparr>) = (digitalWrite p v s)\<lparr>contactDetected := b\<rparr>"
  by (simp add: digitalWrite_def)

lemma stepMotor_flag:
  "stepMotor e (s\<lparr>contactDetected := b\<rparr>) =
     (stepMotor e s)\<lparr>contactDetected := b \<or> fallingEdge e (length (pulses s))\<rparr>"
  by (simp add: stepMotor_def Let_def digitalWrite_def contactInterruptHandler_def)

lemma move_body_flag:
  "move_body e stm sp i (s\<lparr>contactDetected := b\<rparr>) =
     (move_body e stm sp i s)\<lparr>contactDetected := b \<or> fallingEdge e (length (pulses s))\<rparr>"
  by (simp add: move_body_def Let_def stepMotor_flag println_def print_def)

lemma move_loop_flag:
  "(move_loop e stm a sp i (s\<lparr>contactDetected := b\<rparr>))\<lparr>contactDetected := c\<rparr> =
   (move_loop e stm a sp i s)\<lparr>contactDetected := c\<rparr>"
proof (induction "nat (a - i)" arbitrary: i s b)
  case 0
  then have "\<not> i < a" by simp
  then show ?case by (simp add: move_loop_done)
next
  case (Suc m)
  then have lt: "i < a" and m: "m = nat (a - (i + 1))" by simp_all
  show ?case
    using Suc.hyps(1) [OF m] lt
    by (simp add: move_loop_step move_body_flag println_def print_def)
qed

lemma move_loop_flag_kept:
  "contactDetected s \<Longrightarrow> contactDetected (move_loop e stm a sp i s)"
proof (induction "nat (a - i)" arbitrary: i s)
  case 0
  then have "\<not> i < a" by simp
  with 0 show ?case by (simp add: move_loop_done)
next
  case (Suc m)
  then have lt: "i < a" and m: "m = nat (a - (i + 1))" by simp_all
  have "contactDetected (move_body e stm sp i s)" using Suc.prems by simp
  from Suc.hyps(1) [OF m this] lt Suc.prems show ?case
    by (simp add: move_loop_step)
qed


lemma moveToTarget_flag:
  "(moveToTarget e mm (s\<lparr>contactDetected := b\<rparr>))\<lparr>contactDetected := c\<rparr> =
   (moveToTarget e mm s)\<lparr>contactDetected := c\<rparr>"
proof (cases "isCalibrated s")
  case False
  then show ?thesis by (simp add: moveToTarget_def println_def print_def)
next
  case True
  let ?stm = "stepsToMove (currentPosition s) mm"
  let ?s6 = "digitalWrite ENA_PIN LOW (digitalWrite DIR_PIN (if ?stm > 0 then HIGH else LOW)
      (println (printLong ?stm) (print ''Steps to move: ''
        (println (printFloat mm 6) (print ''Moving to target distance: '' s)))))"
  let ?fin = "\<lambda>s7. println ''STATUS:TARGET_COMPLETE''
      (println (printFloat (currentPosition s7) 6) (print ''POSITION:'' s7))"
  have fin: "\<And>x y. x\<lparr>contactDetected := c\<rparr> = y\<lparr>contactDetected := c\<rparr> \<Longrightarrow>
      (?fin x)\<lparr>contactDetected := c\<rparr> = (?fin y)\<lparr>contactDetected := c\<rparr>"
  proof -
    fix x y :: axis
    assume xy: "x\<lparr>contactDetected := c\<rparr> = y\<lparr>contactDetected := c\<rparr>"
    then have "currentPosition (x\<lparr>contactDetected := c\<rparr>) = currentPosition (y\<lparr>contactDetected := c\<rparr>)"
      by simp
    then have pos: "currentPosition x = currentPosition y" by simp
    have "(?fin x)\<lparr>contactDetected := c\<rparr> = ?fin (x\<lparr>contactDetected := c\<rparr>)"
      by (simp add: println_def print_def)
    also have "\<dots> = ?fin (y\<lparr>contactDetected := c\<rparr>)" using xy by simp
    also have "\<dots> = (?fin y)\<lparr>contactDetected := c\<rparr>"
      by (simp add: println_def print_def)
    finally show "(?fin x)\<lparr>contactDetected := c\<rparr> = (?fin y)\<lparr>contactDetected := c\<rparr>" .
  qed
  have a: "moveToTarget e mm s = ?fin (move_loop e ?stm (abs_long ?stm) (currentPosition s) 0 ?s6)"
    using True by (simp add: moveToTarget_def Let_def)
  have b: "moveToTarget e mm (s\<lparr>contactDetected := b\<rparr>) =
      ?fin (move_loop e ?stm (abs_long ?stm) (currentPosition s) 0 (?s6\<lparr>contactDetected := b\<rparr>))"
    using True by (simp add: moveToTarget_def Let_def println_flag print_flag digitalWrite_flag)
  show ?thesis unfolding a b by (rule fin) (rule move_loop_flag)
qed

lemma moveToTarget_flag_kept:
  assumes "contactDetected s"
  shows "contactDetected (moveToTarget e mm s)"
proof (cases "isCalibrated s")
  case False
  with assms show ?thesis by (simp add: moveToTarget_def)
next
  case True
  with assms show ?thesis
    by (simp add: moveToTarget_def Let_def move_loop_flag_kept)
qed

lemma cw_loop_done: "\<not> i < STEPS_PER_COMMAND \<Longrightarrow> cw_loop e i s = s"
  by (subst cw_loop.simps) simp

lemma cw_loop_step:
  "i < STEPS_PER_COMMAND \<Longrightarrow>
   cw_loop e i s = cw_loop e (i + 1) ((stepMotor e s)\<lparr>currentPosition := currentPosition s + MM_PER_PULSE\<rparr>)"
  by (subst cw_loop.simps) (simp add: Let_def)

lemma cw_loop_flag:
  "(cw_loop e i (s\<lparr>contactDetected := b\<rparr>))\<lparr>contactDetected := c\<rparr> =
   (cw_loop e i s)\<lparr>contactDetected := c\<rparr>"
proof (induction "nat (STEPS_PER_COMMAND - i)" arbitrary: i s b)
  case 0
  then have "\<not> i < STEPS_PER_COMMAND" by simp
  then show ?case by (simp add: cw_loop_done)
next
  case (Suc m)
  then have lt: "i < STEPS_PER_COMMAND" and m: "m = nat (STEPS_PER_COMMAND - (i + 1))" by simp_all
  have "(stepMotor e (s\<lparr>contactDetected := b\<rparr>))\<lparr>currentPosition := currentPosition s + MM_PER_PULSE\<rparr>
      = ((stepMotor e s)\<lparr>currentPosition := currentPosition s + MM_PER_PULSE\<rparr>)
          \<lparr>contactDetected := b \<or> fallingEdge e (length (pulses s))\<rparr>"
    by (simp add: stepMotor_flag)
  with Suc.hyps(1) [OF m] lt show ?case by (simp add: cw_loop_step)
qed

lemma cw_loop_flag_kept: "contactDetected s \<Longrightarrow> contactDetected (cw_loop e i s)"
proof (induction "nat (STEPS_PER_COMMAND - i)" arbitrary: i s)
  case 0
  then have "\<not> i < STEPS_PER_COMMAND" by simp
  with 0 show ?case by (simp add: cw_loop_done)
next
  case (Suc m)
  then have lt: "i < STEPS_PER_COMMAND" and m: "m = nat (STEPS_PER_COMMAND - (i + 1))" by simp_all
  from Suc.hyps(1) [OF m, of "(stepMotor e s)\<lparr>currentPosition := currentPosition s + MM_PER_PULSE\<rparr>"]
    lt Suc.prems show ?case by (simp add: cw_loop_step)
qed

lemma manualStepCW_flag:
  "(manualStepCW e (s\<lparr>contactDetected := b\<rparr>))\<lparr>contactDetected := c\<rparr> =
   (manualStepCW e s)\<lparr>contactDetected := c\<rparr>"
  by (simp add: manualStepCW_def Let_def digitalWrite_flag cw_loop_flag println_def print_def)

lemma manualStepCW_flag_kept: "contactDetected s \<Longrightarrow> contactDetected (manualStepCW e s)"
  by (simp add: manualStepCW_def Let_def cw_loop_flag_kept)

lemma ccw_loop_flag:
  "(ccw_loop e i (s\<lparr>contactDetected := b\<rparr>))\<lparr>contactDetected := c\<rparr> =
   (ccw_loop e i s)\<lparr>contactDetected := c\<rparr>"
proof (induction "nat (STEPS_PER_COMMAND - i)" arbitrary: i s b)
  case 0
  then have "\<not> i < STEPS_PER_COMMAND" by simp
  then show ?case by (simp add: ccw_loop_done)
next
  case (Suc m)
  then have lt: "i < STEPS_PER_COMMAND" and m: "m = nat (STEPS_PER_COMMAND - (i + 1))" by simp_all
  show ?case
  proof (cases "contactLine e (length (pulses s))")
    case LOW
    with lt show ?thesis by (simp add: ccw_loop_contact println_def print_def)
  next
    case HIGH
    have "(stepMotor e (s\<lparr>contactDetected := b\<rparr>))\<lparr>currentPosition := currentPosition s - MM_PER_PULSE\<rparr>
        = ((stepMotor e s)\<lparr>currentPosition := currentPosition s - MM_PER_PULSE\<rparr>)
            \<lparr>contactDetected := b \<or> fallingEdge e (length (pulses s))\<rparr>"
      by (simp add: stepMotor_flag)
    with Suc.hyps(1) [OF m] lt HIGH show ?thesis by (simp add: ccw_loop_step)
  qed
qed

lemma manualStepCCW_flag:
  "isCalibrated s \<Longrightarrow> manualStepCCW e (s\<lparr>contactDetected := b\<rparr>) = manualStepCCW e s"
  by (simp add: manualStepCCW_def Let_def digitalWrite_def)

lemma runCalibration_flag:
  "runCalibration e (s\<lparr>contactDetected := b\<rparr>) = runCalibration e s"
  by (simp add: runCalibration_def Let_def digitalWrite_def println_def print_def)


lemma stepMotor_env: "fallingEdge (e'::env) = fallingEdge (e::env) \<Longrightarrow> stepMotor e' s = stepMotor e s"
  by (simp add: stepMotor_def)

lemma calibration_loop_env_Some:
  assumes ret: "calibration_loop e s = Some r"
  shows "\<forall>e'::env. fallingEdge e' = fallingEdge e \<longrightarrow> calibration_loop e' s = Some r"
proof (rule calibration_loop.raw_induct
    [where P = "\<lambda>e s r. \<forall>e'::env. fallingEdge e' = fallingEdge e \<longrightarrow> calibration_loop e' s = Some r",
     OF _ ret])
  fix f e s r
  assume ih: "\<And>e s r. f e s = Some r \<Longrightarrow>
      \<forall>e'::env. fallingEdge e' = fallingEdge e \<longrightarrow> calibration_loop e' s = Some r"
    and eq: "(if \<not> contactDetected s then f e (stepMotor e s) else Some s) = Some r"
  show "\<forall>e'::env. fallingEdge e' = fallingEdge e \<longrightarrow> calibration_loop e' s = Some r"
  proof (intro allI impI)
    fix e' :: env assume same: "fallingEdge e' = fallingEdge e"
    show "calibration_loop e' s = Some r"
    proof (cases "contactDetected s")
      case True
      with eq show ?thesis by (simp add: calibration_loop_done)
    next
      case False
      with eq have "f e (stepMotor e s) = Some r" by simp
      from ih [OF this] same have "calibration_loop e' (stepMotor e s) = Some r" by simp
      with False same show ?thesis
        by (simp add: calibration_loop_step stepMotor_env [of e' e])
    qed
  qed
qed

lemma calibration_loop_env:
  assumes "fallingEdge (e'::env) = fallingEdge (e::env)"
  shows "calibration_loop e' s = calibration_loop e s"
proof (cases "calibration_loop e s")
  case (Some r)
  with calibration_loop_env_Some [OF Some] assms show ?thesis by simp
next
  case None
  show ?thesis
  proof (cases "calibration_loop e' s")
    case None
    with \<open>calibration_loop e s = None\<close> show ?thesis by simp
  next
    case (Some r)
    from calibration_loop_env_Some [OF Some] assms have "calibration_loop e s = Some r" by simp
    with None show ?thesis by simp
  qed
qed

lemma runCalibration_env:
  assumes "contactLine e' (length (pulses s)) = contactLine e (length (pulses s))"
    and "fallingEdge e' = fallingEdge e"
  shows "runCalibration e' s = runCalibration e s"
  using assms by (simp add: runCalibration_def Let_def calibration_loop_env [of e' e])

lemma ccw_loop_run:
  "\<exists>n. int n \<le> max 0 (STEPS_PER_COMMAND - i) \<and>
       pulses (ccw_loop e i s) = pulses s @ replicate n (pins s DIR_PIN) \<and>
       currentPosition (ccw_loop e i s) = currentPosition s - of_nat n * MM_PER_PULSE \<and>
       (\<forall>j<n. contactLine e (length (pulses s) + j) = HIGH) \<and>
       (int n < STEPS_PER_COMMAND - i \<longrightarrow> contactLine e (length (pulses s) + n) = LOW)"
proof (induction "nat (STEPS_PER_COMMAND - i)" arbitrary: i s)
  case 0
  then have "\<not> i < STEPS_PER_COMMAND" by simp
  then show ?case by (intro exI [of _ 0]) (simp add: ccw_loop_done)
next
  case (Suc m)
  then have lt: "i < STEPS_PER_COMMAND" and m: "m = nat (STEPS_PER_COMMAND - (i + 1))" by simp_all
  show ?case
  proof (cases "contactLine e (length (pulses s))")
    case LOW
    with lt show ?thesis by (intro exI [of _ 0]) (simp add: ccw_loop_contact)
  next
    case HIGH
    let ?s1 = "(stepMotor e s)\<lparr>currentPosition := currentPosition s - MM_PER_PULSE\<rparr>"
    have eq: "ccw_loop e i s = ccw_loop e (i + 1) ?s1" using lt HIGH by (rule ccw_loop_step)
    from Suc.hyps(1) [OF m, of ?s1] obtain n where
      n: "int n \<le> max 0 (STEPS_PER_COMMAND - (i + 1))"
         "pulses (ccw_loop e (i + 1) ?s1) = pulses ?s1 @ replicate n (pins ?s1 DIR_PIN)"
         "currentPosition (ccw_loop e (i + 1) ?s1) = currentPosition ?s1 - of_nat n * MM_PER_PULSE"
         "\<forall>j<n. contactLine e (length (pulses ?s1) + j) = HIGH"
         "int n < STEPS_PER_COMMAND - (i + 1) \<longrightarrow> contactLine e (length (pulses ?s1) + n) = LOW"
      by blast
    have c1: "int (Suc n) \<le> max 0 (STEPS_PER_COMMAND - i)" using n(1) lt by simp
    have c2: "pulses (ccw_loop e i s) = pulses s @ replicate (Suc n) (pins s DIR_PIN)"
      using n(2) eq by (simp add: replicate_append_same)
    have c3: "currentPosition (ccw_loop e i s) = currentPosition s - of_nat (Suc n) * MM_PER_PULSE"
      using n(3) eq by (simp add: algebra_simps)
    have c4: "\<forall>j<Suc n. contactLine e (length (pulses s) + j) = HIGH"
    proof (intro allI impI)
      fix j assume "j < Suc n"
      show "contactLine e (length (pulses s) + j) = HIGH"
      proof (cases j)
        case 0
        with HIGH show ?thesis by simp
      next
        case (Suc j')
        with \<open>j < Suc n\<close> n(4) show ?thesis by auto
      qed
    qed
    have c5: "int (Suc n) < STEPS_PER_COMMAND - i \<longrightarrow>
        contactLine e (length (pulses s) + Suc n) = LOW"
      using n(5) by auto
    from c1 c2 c3 c4 c5 show ?thesis by (intro exI [of _ "Suc n"]) simp
  qed
qed

lemma manualStepCCW_run:
  assumes "isCalibrated s"
  shows "\<exists>n. int n \<le> STEPS_PER_COMMAND \<and>
       pulses (manualStepCCW e s) = pulses s @ replicate n LOW \<and>
       currentPosition (manualStepCCW e s) = currentPosition s - of_nat n * MM_PER_PULSE \<and>
       (\<forall>j<n. contactLine e (length (pulses s) + j) = HIGH) \<and>
       (int n < STEPS_PER_COMMAND \<longrightarrow> contactLine e (length (pulses s) + n) = LOW)"
proof (cases "contactLine e (length (pulses s))")
  case LOW
  with assms show ?thesis
    by (intro exI [of _ 0]) (simp add: manualStepCCW_def Let_def STEPS_PER_COMMAND_def)
next
  case HIGH
  let ?s3 = "(digitalWrite ENA_PIN LOW (digitalWrite DIR_PIN LOW s))\<lparr>contactDetected := False\<rparr>"
  have eq: "manualStepCCW e s = ccw_loop e 0 ?s3"
    using assms HIGH by (simp add: manualStepCCW_def Let_def)
  from ccw_loop_run [of 0 e ?s3] show ?thesis
    unfolding eq by (simp add: STEPS_PER_COMMAND_def)
qed

lemma cw_loop_run:
  "pulses (cw_loop e i s) = pulses s @ replicate (nat (STEPS_PER_COMMAND - i)) (pins s DIR_PIN) \<and>
   currentPosition (cw_loop e i s) =
     currentPosition s + of_nat (nat (STEPS_PER_COMMAND - i)) * MM_PER_PULSE"
proof (induction "nat (STEPS_PER_COMMAND - i)" arbitrary: i s)
  case 0
  then have "\<not> i < STEPS_PER_COMMAND" by simp
  with 0 show ?case by (simp add: cw_loop_done)
next
  case (Suc m)
  then have lt: "i < STEPS_PER_COMMAND" and m: "m = nat (STEPS_PER_COMMAND - (i + 1))" by simp_all
  let ?s1 = "(stepMotor e s)\<lparr>currentPosition := currentPosition s + MM_PER_PULSE\<rparr>"
  have n: "nat (STEPS_PER_COMMAND - i) = Suc m" using Suc.hyps(2) by simp
  from Suc.hyps(1) [OF m, of ?s1] lt show ?case
    unfolding n m [symmetric]
    by (simp add: cw_loop_step replicate_append_same algebra_simps)
qed

lemma manualStepCW_run:
  assumes "isCalibrated s"
  shows "pulses (manualStepCW e s) = pulses s @ replicate 20 HIGH \<and>
         currentPosition (manualStepCW e s) = currentPosition s + 20 * MM_PER_PULSE"
  using assms cw_loop_run [of e 0 "digitalWrite ENA_PIN LOW (digitalWrite DIR_PIN HIGH s)"]
  by (simp add: manualStepCW_def Let_def STEPS_PER_COMMAND_def)

text \<open>
  C7. The claim: every move loop polls both the latched contact flag and the live sensor
  level once per pulse, and the flag is read and cleared at these checkpoints and at
  sequence entry. \<open>moveToTarget\<close> never touches the flag: with the flag latched at entry
  and the contact line clear, a move of 20 steps toward the hard-stop issues all 20
  pulses and leaves the flag set.
\<close>

theorem latched_flag_neither_polled_nor_cleared:
  "contactDetected (homed\<lparr>currentPosition := 20 * MM_PER_PULSE, contactDetected := True\<rparr>) \<and>
   pulses (moveToTarget line_clear 0
      (homed\<lparr>currentPosition := 20 * MM_PER_PULSE, contactDetected := True\<rparr>)) = replicate 20 LOW \<and>
   contactDetected (moveToTarget line_clear 0
      (homed\<lparr>currentPosition := 20 * MM_PER_PULSE, contactDetected := True\<rparr>))"
proof -
  let ?s = "homed\<lparr>currentPosition := 20 * MM_PER_PULSE, contactDetected := True\<rparr>"
  have "pulses (moveToTarget line_clear 0 ?s) = replicate 20 LOW"
    using moveToTarget_toward [of ?s 0 20 20 line_clear] by (simp add: steps_20_0)
  moreover have "contactDetected (moveToTarget line_clear 0 ?s)"
    by (rule moveToTarget_flag_kept) simp
  ultimately show ?thesis by simp
qed

text \<open>
  C7, as the code has it. The loops poll the live sensor level, once per pulse, and
  not the latched flag. A calibrated \<open>moveToTarget\<close> issues its planned pulses until the
  contact line reads asserted after a pulse of a move toward the hard-stop; a calibrated
  \<open>manualStepCCW\<close> issues pulses until the line reads asserted before a pulse or the
  batch is complete; a calibrated \<open>manualStepCW\<close> issues its 20 pulses whatever the line
  reads. \<open>moveToTarget\<close> and \<open>manualStepCW\<close> neither read nor clear the flag: what they
  do is the same whatever its value, and a set flag stays set. The loop of
  \<open>manualStepCCW\<close> does not read it either, and \<open>manualStepCCW\<close> and \<open>runCalibration\<close>
  overwrite it at entry without reading it. \<open>runCalibration\<close> samples the live level at
  entry only: its loop polls the flag alone.
\<close>

theorem move_loops_and_the_latched_flag:
  "(isCalibrated s \<longrightarrow>
      (\<exists>n. int n \<le> \<bar>stepsToMove (currentPosition s) mm\<bar> \<and>
         pulses (moveToTarget e mm s) = pulses s @ replicate n
            (if stepsToMove (currentPosition s) mm > 0 then HIGH else LOW) \<and>
         (\<forall>j. 0 < j \<and> j < n \<longrightarrow>
            \<not> (contactLine e (length (pulses s) + j) = LOW \<and> stepsToMove (currentPosition s) mm \<le> 0)) \<and>
         (int n < \<bar>stepsToMove (currentPosition s) mm\<bar> \<longrightarrow>
            0 < n \<and> contactLine e (length (pulses s) + n) = LOW \<and>
            stepsToMove (currentPosition s) mm \<le> 0)) \<and>
      (\<exists>n. int n \<le> STEPS_PER_COMMAND \<and>
         pulses (manualStepCCW e s) = pulses s @ replicate n LOW \<and>
         (\<forall>j<n. contactLine e (length (pulses s) + j) = HIGH) \<and>
         (int n < STEPS_PER_COMMAND \<longrightarrow> contactLine e (length (pulses s) + n) = LOW)) \<and>
      pulses (manualStepCW e s) = pulses s @ replicate 20 HIGH) \<and>
   (moveToTarget e mm (s\<lparr>contactDetected := b\<rparr>))\<lparr>contactDetected := c\<rparr>
      = (moveToTarget e mm s)\<lparr>contactDetected := c\<rparr> \<and>
   (contactDetected s \<longrightarrow> contactDetected (moveToTarget e mm s)) \<and>
   (manualStepCW e (s\<lparr>contactDetected := b\<rparr>))\<lparr>contactDetected := c\<rparr>
      = (manualStepCW e s)\<lparr>contactDetected := c\<rparr> \<and>
   (contactDetected s \<longrightarrow> contactDetected (manualStepCW e s)) \<and>
   (ccw_loop e i (s\<lparr>contactDetected := b\<rparr>))\<lparr>contactDetected := c\<rparr>
      = (ccw_loop e i s)\<lparr>contactDetected := c\<rparr> \<and>
   (isCalibrated s \<longrightarrow> manualStepCCW e (s\<lparr>contactDetected := b\<rparr>) = manualStepCCW e s) \<and>
   runCalibration e (s\<lparr>contactDetected := b\<rparr>) = runCalibration e s \<and>
   (contactLine e' (length (pulses s)) = contactLine e (length (pulses s)) \<and>
    fallingEdge e' = fallingEdge e \<longrightarrow> runCalibration e' s = runCalibration e s)"
proof -
  have live: "isCalibrated s \<longrightarrow>
      (\<exists>n. int n \<le> \<bar>stepsToMove (currentPosition s) mm\<bar> \<and>
         pulses (moveToTarget e mm s) = pulses s @ replicate n
            (if stepsToMove (currentPosition s) mm > 0 then HIGH else LOW) \<and>
         (\<forall>j. 0 < j \<and> j < n \<longrightarrow>
            \<not> (contactLine e (length (pulses s) + j) = LOW \<and> stepsToMove (currentPosition s) mm \<le> 0)) \<and>
         (int n < \<bar>stepsToMove (currentPosition s) mm\<bar> \<longrightarrow>
            0 < n \<and> contactLine e (length (pulses s) + n) = LOW \<and>
            stepsToMove (currentPosition s) mm \<le> 0)) \<and>
      (\<exists>n. int n \<le> STEPS_PER_COMMAND \<and>
         pulses (manualStepCCW e s) = pulses s @ replicate n LOW \<and>
         (\<forall>j<n. contactLine e (length (pulses s) + j) = HIGH) \<and>
         (int n < STEPS_PER_COMMAND \<longrightarrow> contactLine e (length (pulses s) + n) = LOW)) \<and>
      pulses (manualStepCW e s) = pulses s @ replicate 20 HIGH"
  proof (intro impI conjI)
    assume cal: "isCalibrated s"
    from moveToTarget_run [OF cal, of mm e]
    show "\<exists>n. int n \<le> \<bar>stepsToMove (currentPosition s) mm\<bar> \<and>
         pulses (moveToTarget e mm s) = pulses s @ replicate n
            (if stepsToMove (currentPosition s) mm > 0 then HIGH else LOW) \<and>
         (\<forall>j. 0 < j \<and> j < n \<longrightarrow>
            \<not> (contactLine e (length (pulses s) + j) = LOW \<and> stepsToMove (currentPosition s) mm \<le> 0)) \<and>
         (int n < \<bar>stepsToMove (currentPosition s) mm\<bar> \<longrightarrow>
            0 < n \<and> contactLine e (length (pulses s) + n) = LOW \<and>
            stepsToMove (currentPosition s) mm \<le> 0)"
      by blast
    from manualStepCCW_run [OF cal, of e]
    show "\<exists>n. int n \<le> STEPS_PER_COMMAND \<and>
         pulses (manualStepCCW e s) = pulses s @ replicate n LOW \<and>
         (\<forall>j<n. contactLine e (length (pulses s) + j) = HIGH) \<and>
         (int n < STEPS_PER_COMMAND \<longrightarrow> contactLine e (length (pulses s) + n) = LOW)"
      by blast
    from manualStepCW_run [OF cal, of e]
    show "pulses (manualStepCW e s) = pulses s @ replicate 20 HIGH" by simp
  qed
  have env: "contactLine e' (length (pulses s)) = contactLine e (length (pulses s)) \<and>
      fallingEdge e' = fallingEdge e \<longrightarrow> runCalibration e' s = runCalibration e s"
    by (intro impI runCalibration_env) simp_all
  have kept: "contactDetected s \<longrightarrow> contactDetected (moveToTarget e mm s)"
    "contactDetected s \<longrightarrow> contactDetected (manualStepCW e s)"
    by (simp_all add: moveToTarget_flag_kept manualStepCW_flag_kept)
  have ccw: "isCalibrated s \<longrightarrow> manualStepCCW e (s\<lparr>contactDetected := b\<rparr>) = manualStepCCW e s"
    by (simp add: manualStepCCW_flag)
  from live env kept ccw
    moveToTarget_flag [where e = e and mm = mm and s = s and b = b and c = c]
    manualStepCW_flag [where e = e and s = s and b = b and c = c]
    ccw_loop_flag [where e = e and i = i and s = s and b = b and c = c]
    runCalibration_flag [where e = e and s = s and b = b]
  show ?thesis by blast
qed

theorem move_loops_and_the_latched_flag_witness:
  "contactDetected homed \<and> isCalibrated homed \<and>
   pulses (manualStepCW line_clear homed) = replicate 20 HIGH \<and>
   contactDetected (moveToTarget line_clear 5 homed) \<and>
   contactDetected (manualStepCW line_clear homed) \<and>
   manualStepCCW line_clear (homed\<lparr>contactDetected := False\<rparr>) = manualStepCCW line_clear homed \<and>
   contactLine line_clear (length (pulses boot)) = contactLine (contact_after 1) (length (pulses boot)) \<and>
   fallingEdge (line_clear\<lparr>contactLine := contactLine (contact_after 1)\<rparr>) = fallingEdge line_clear \<and>
   runCalibration (line_clear\<lparr>contactLine := contactLine (contact_after 1)\<rparr>) boot
      = runCalibration line_clear boot"
proof -
  let ?e' = "line_clear\<lparr>contactLine := contactLine (contact_after 1)\<rparr>"
  have h: "contactDetected homed" "isCalibrated homed" by simp_all
  have g: "contactLine ?e' (length (pulses boot)) = contactLine line_clear (length (pulses boot))"
    "fallingEdge ?e' = fallingEdge line_clear"
    by (simp_all add: contact_after_def)
  from move_loops_and_the_latched_flag [where e = line_clear and mm = 5 and s = homed and b = False] h
  have "contactDetected (moveToTarget line_clear 5 homed)" "contactDetected (manualStepCW line_clear homed)"
    "pulses (manualStepCW line_clear homed) = replicate 20 HIGH"
    "manualStepCCW line_clear (homed\<lparr>contactDetected := False\<rparr>) = manualStepCCW line_clear homed"
    by simp_all
  moreover from move_loops_and_the_latched_flag [where e = line_clear and s = boot and e' = ?e'] g
  have "runCalibration ?e' boot = runCalibration line_clear boot" by blast
  ultimately show ?thesis using h g by (simp add: contact_after_def)
qed

end
